theory Spec2Isabelle
  imports Complex_Main "HOL-Library.AList" "HOL-Library.Multiset" "HOL-Library.Log_Nat"
begin

section \<open>Data model\<close>

text \<open>
  The two scripts \<^verbatim>\<open>odds_script.py\<close> (aggregate mode: best price over all bookmakers)
  and \<^verbatim>\<open>odds_filter_script.py\<close> (per-bookmaker mode, with deep links) walk the JSON
  answer of the odds provider: event, bookmaker, market, outcome. A JSON object is a
  record; a field read with \<^verbatim>\<open>.get(key)\<close> is an \<open>option\<close> (\<open>None\<close>: the key is absent
  or null); a field read with \<^verbatim>\<open>.get(key, [])\<close> is a list.

  Strings are lists of code points below 256: every character of the draw synonyms
  (including U+00E9) is one \<open>char\<close>, and \<open>py_lower\<close> is Python's \<^verbatim>\<open>str.lower\<close> on that
  range.
\<close>

text \<open>
  A Python float: a finite value, an infinity or NaN. A finite float is given by its
  value; the model does not single out the values a double can hold.
\<close>

datatype pyfloat = Finite real | PosInf | NegInf | NaN

text \<open>
  A JSON value where the scripts do not fix its type: the name and the price of an
  outcome. \<^verbatim>\<open>json.loads\<close> reads the literals \<^verbatim>\<open>NaN\<close> and \<^verbatim>\<open>Infinity\<close> as floats.
\<close>

datatype json =
    JNull
  | JBool bool
  | JInt int
  | JFloat pyfloat
  | JStr string
  | JList
  | JObject

datatype exn =
    TypeError
  | ValueError
  | OverflowError
  | AttributeError
  | KeyError
  | ConnectionFailure
  | HTTPError nat
  | JSONDecodeError

record outcome =
  o_name :: "json option"
  o_price :: json
  o_link :: "string option"

record market =
  m_key :: "string option"
  m_outcomes :: "outcome list"
  m_link :: "string option"

record bookmaker =
  b_key :: "string option"
  b_title :: "string option"
  b_markets :: "market list"
  b_link :: "string option"

record event =
  e_id :: "string option"
  e_sport_key :: "string option"
  e_commence_time :: "string option"
  e_home_team :: "string option"
  e_away_team :: "string option"
  e_bookmakers :: "bookmaker list"
  e_link :: "string option"

text \<open>The keys \<^verbatim>\<open>"home"\<close>, \<^verbatim>\<open>"draw"\<close>, \<^verbatim>\<open>"away"\<close> of the dictionaries the extractors fill.\<close>

datatype okey = Home | Draw | Away

section \<open>Python builtins\<close>

text \<open>
  Comparison of floats is exact, and every comparison with NaN is false. \<open>flt a b\<close> is
  \<^verbatim>\<open>a < b\<close> and \<open>fle a b\<close> is \<^verbatim>\<open>a <= b\<close>; \<^verbatim>\<open>a > b\<close> is \<open>flt b a\<close>.
\<close>

fun flt :: "pyfloat \<Rightarrow> pyfloat \<Rightarrow> bool" where
  "flt NaN b = False"
| "flt a NaN = False"
| "flt (Finite x) (Finite y) = (x < y)"
| "flt (Finite x) PosInf = True"
| "flt (Finite x) NegInf = False"
| "flt PosInf b = False"
| "flt NegInf NegInf = False"
| "flt NegInf b = True"

definition fle :: "pyfloat \<Rightarrow> pyfloat \<Rightarrow> bool" where
  "fle a b = (a \<noteq> NaN \<and> b \<noteq> NaN \<and> \<not> flt b a)"

text \<open>\<^verbatim>\<open>abs\<close> of a float.\<close>

fun fabs :: "pyfloat \<Rightarrow> pyfloat" where
  "fabs (Finite x) = Finite \<bar>x\<bar>"
| "fabs PosInf = PosInf"
| "fabs NegInf = PosInf"
| "fabs NaN = NaN"

text \<open>
  Subtraction and multiplication of floats round their result; they belong to the
  interpreter and are the parameters \<open>fsub\<close> and \<open>fmul\<close> of the functions that compute
  with prices.
\<close>

type_synonym float_op = "pyfloat \<Rightarrow> pyfloat \<Rightarrow> pyfloat"

text \<open>
  \<^verbatim>\<open>float(n)\<close> of an integer rounds to 53 significant bits, ties to even, and raises
  OverflowError when the rounded value reaches \<open>2^1024\<close>.
\<close>

definition round_to_double :: "nat \<Rightarrow> nat" where
  "round_to_double n =
     (if n < 2 ^ 53 then n
      else let e = floorlog 2 n - 53; q = n div 2 ^ e; r = n mod 2 ^ e
           in (if 2 ^ e < 2 * r \<or> (2 * r = 2 ^ e \<and> odd q) then q + 1 else q) * 2 ^ e)"

text \<open>
  \<^verbatim>\<open>float(x)\<close>: \<^verbatim>\<open>None\<close>, a list or an object raise TypeError; a string that is not a
  number raises ValueError; a boolean is 0 or 1; a float is itself. The syntax of
  numeric strings belongs to the interpreter: \<open>pf\<close> gives the float of a string (which may
  be NaN or an infinity, as for \<^verbatim>\<open>"nan"\<close> and \<^verbatim>\<open>"inf"\<close>), \<open>None\<close> where \<^verbatim>\<open>float\<close> rejects it.
\<close>

definition py_float :: "(string \<Rightarrow> pyfloat option) \<Rightarrow> json \<Rightarrow> exn + pyfloat" where
  "py_float pf v =
     (case v of
        JNull \<Rightarrow> Inl TypeError
      | JBool b \<Rightarrow> Inr (Finite (if b then 1 else 0))
      | JInt n \<Rightarrow>
          (let m = round_to_double (nat \<bar>n\<bar>)
           in if 2 ^ 1024 \<le> m then Inl OverflowError
              else Inr (Finite (if n < 0 then - real m else real m)))
      | JFloat x \<Rightarrow> Inr x
      | JStr s \<Rightarrow> (case pf s of None \<Rightarrow> Inl ValueError | Some x \<Rightarrow> Inr x)
      | JList \<Rightarrow> Inl TypeError
      | JObject \<Rightarrow> Inl TypeError)"

text \<open>\<^verbatim>\<open>str.lower\<close> on code points below 256: A-Z and U+00C0-U+00DE (without U+00D7).\<close>

definition lower_char :: "char \<Rightarrow> char" where
  "lower_char c =
     (let n = (of_char c :: nat)
      in if (65 \<le> n \<and> n \<le> 90) \<or> (192 \<le> n \<and> n \<le> 222 \<and> n \<noteq> 215)
         then char_of (n + 32) else c)"

definition py_lower :: "string \<Rightarrow> string" where
  "py_lower s = map lower_char s"

text \<open>
  \<^verbatim>\<open>a or b\<close> on optional strings: \<open>a\<close> when it is truthy (present and not empty),
  otherwise \<open>b\<close>, whatever \<open>b\<close> is.
\<close>

definition truthy :: "string option \<Rightarrow> bool" where
  "truthy a = (case a of None \<Rightarrow> False | Some s \<Rightarrow> s \<noteq> [])"

definition py_or :: "string option \<Rightarrow> string option \<Rightarrow> string option" where
  "py_or a b = (if truthy a then a else b)"

section \<open>Deep links\<close>

text \<open>\<^verbatim>\<open>_deep_link\<close> of \<^verbatim>\<open>odds_filter_script.py\<close>.\<close>

definition deep_link :: "event \<Rightarrow> bookmaker \<Rightarrow> market \<Rightarrow> outcome \<Rightarrow> string option" where
  "deep_link ev bm mk oc =
     py_or (o_link oc) (py_or (m_link mk) (py_or (b_link bm) (e_link ev)))"

section \<open>Classification of outcome names\<close>

text \<open>The last letter of the fourth synonym is U+00E9.\<close>

definition egalite :: string where
  "egalite = ''egalit'' @ [char_of (233 :: nat)]"

definition draw_names_bookmaker :: "string list" where
  "draw_names_bookmaker = [''draw'', ''tie'', egalite]"

definition draw_names_three_way :: "string list" where
  "draw_names_three_way = [''draw'', ''tie'', ''espn'', egalite]"

text \<open>
  The \<^verbatim>\<open>if / elif / elif / else: continue\<close> chain of both extractors, with the synonym
  set of the script as \<open>syn\<close>; \<open>None\<close> is the \<^verbatim>\<open>continue\<close> of an unknown label.
\<close>

definition classify :: "string list \<Rightarrow> string option \<Rightarrow> string option \<Rightarrow> string \<Rightarrow> okey option" where
  "classify syn home_team away_team name =
     (if py_lower name \<in> set syn then Some Draw
      else if Some name = home_team then Some Home
      else if Some name = away_team then Some Away
      else None)"

text \<open>
  \<^verbatim>\<open>name = outcome.get("name", "")\<close> followed by \<^verbatim>\<open>name.lower()\<close>: an absent name is the
  empty string, and a name that is not a string (null, a number) has no \<^verbatim>\<open>lower\<close>, which
  raises AttributeError.
\<close>

definition outcome_name :: "outcome \<Rightarrow> exn + string" where
  "outcome_name oc =
     (case o_name oc of
        None \<Rightarrow> Inr []
      | Some (JStr n) \<Rightarrow> Inr n
      | Some _ \<Rightarrow> Inl AttributeError)"

section \<open>Fetching\<close>

text \<open>
  What the provider answers to one request: no answer at all (\<^verbatim>\<open>requests.get\<close> raises),
  or a status code with a body, \<open>None\<close> when the body is not JSON.
\<close>

datatype response = No_response | Response nat "event list option"

text \<open>
  \<^verbatim>\<open>fetch_odds\<close>, the same in both scripts. \<^verbatim>\<open>raise_for_status\<close> raises on the status
  codes 400 to 599.
\<close>

definition fetch_odds :: "response \<Rightarrow> exn + event list" where
  "fetch_odds resp =
     (case resp of
        No_response \<Rightarrow> Inl ConnectionFailure
      | Response status body \<Rightarrow>
          if status = 404 then Inr []
          else if 400 \<le> status \<and> status < 600 then Inl (HTTPError status)
          else (case body of None \<Rightarrow> Inl JSONDecodeError | Some events \<Rightarrow> Inr events))"

section \<open>Aggregate mode: \<^verbatim>\<open>odds_script.py\<close>\<close>

type_synonym odds_dict = "(okey \<times> pyfloat) list"

text \<open>
  A dictionary is an association list in insertion order: \<open>AList.update\<close> replaces the
  value of a key in place and appends a new key, \<open>map_of\<close> reads, \<open>length\<close> is \<^verbatim>\<open>len\<close>.
\<close>

text \<open>
  \<^verbatim>\<open>if outcome_key not in best_odds or price_val > best_odds[outcome_key]:\<close>
  \<^verbatim>\<open>best_odds[outcome_key] = price_val\<close>
\<close>

definition keep_best :: "okey \<Rightarrow> pyfloat \<Rightarrow> odds_dict \<Rightarrow> odds_dict" where
  "keep_best k v best =
     (case map_of best k of
        None \<Rightarrow> AList.update k v best
      | Some b \<Rightarrow> if flt b v then AList.update k v best else best)"

fun three_way_outcomes ::
  "(string \<Rightarrow> pyfloat option) \<Rightarrow> string option \<Rightarrow> string option \<Rightarrow> outcome list \<Rightarrow> odds_dict
   \<Rightarrow> exn + odds_dict" where
  "three_way_outcomes pf hteam ateam [] best = Inr best"
| "three_way_outcomes pf hteam ateam (oc # ocs) best =
     (case outcome_name oc of
        Inl e \<Rightarrow> Inl e
      | Inr name \<Rightarrow>
     (case classify draw_names_three_way hteam ateam name of
        None \<Rightarrow> three_way_outcomes pf hteam ateam ocs best
      | Some k \<Rightarrow>
          (case py_float pf (o_price oc) of
             Inl e \<Rightarrow>
               if e = TypeError \<or> e = ValueError then three_way_outcomes pf hteam ateam ocs best
               else Inl e
           | Inr v \<Rightarrow> three_way_outcomes pf hteam ateam ocs (keep_best k v best))))"

fun three_way_markets ::
  "(string \<Rightarrow> pyfloat option) \<Rightarrow> string option \<Rightarrow> string option \<Rightarrow> market list \<Rightarrow> odds_dict
   \<Rightarrow> exn + odds_dict" where
  "three_way_markets pf hteam ateam [] best = Inr best"
| "three_way_markets pf hteam ateam (mk # mks) best =
     (if m_key mk \<noteq> Some ''h2h'' then three_way_markets pf hteam ateam mks best
      else (case three_way_outcomes pf hteam ateam (m_outcomes mk) best of
              Inl e \<Rightarrow> Inl e
            | Inr best' \<Rightarrow> three_way_markets pf hteam ateam mks best'))"

fun three_way_bookmakers ::
  "(string \<Rightarrow> pyfloat option) \<Rightarrow> string option \<Rightarrow> string option \<Rightarrow> bookmaker list \<Rightarrow> odds_dict
   \<Rightarrow> exn + odds_dict" where
  "three_way_bookmakers pf hteam ateam [] best = Inr best"
| "three_way_bookmakers pf hteam ateam (bm # bms) best =
     (case three_way_markets pf hteam ateam (b_markets bm) best of
        Inl e \<Rightarrow> Inl e
      | Inr best' \<Rightarrow> three_way_bookmakers pf hteam ateam bms best')"

definition extract_three_way_odds ::
  "(string \<Rightarrow> pyfloat option) \<Rightarrow> event \<Rightarrow> exn + odds_dict option" where
  "extract_three_way_odds pf ev =
     (case three_way_bookmakers pf (e_home_team ev) (e_away_team ev) (e_bookmakers ev) [] of
        Inl e \<Rightarrow> Inl e
      | Inr best \<Rightarrow> Inr (if length best = 3 then Some best else None))"

record result =
  r_event_id :: "string option"
  r_sport_key :: "string option"
  r_commence_time :: "string option"
  r_home_team :: "string option"
  r_away_team :: "string option"
  best_odds :: odds_dict
  r_combined_product :: pyfloat

text \<open>\<^verbatim>\<open>all(abs(odds[outcome] - target) <= tol for outcome in odds)\<close>\<close>

definition all_near :: "float_op \<Rightarrow> pyfloat \<Rightarrow> pyfloat \<Rightarrow> odds_dict \<Rightarrow> bool" where
  "all_near fsub target tol odds =
     list_all (\<lambda>k. case map_of odds k of
                     None \<Rightarrow> False
                   | Some v \<Rightarrow> fle (fabs (fsub v target)) tol)
       (map fst odds)"

text \<open>The body of \<^verbatim>\<open>for event in events\<close>: the results list after this event.\<close>

definition high_odds_event ::
  "(string \<Rightarrow> pyfloat option) \<Rightarrow> float_op \<Rightarrow> float_op \<Rightarrow> pyfloat \<Rightarrow> pyfloat \<Rightarrow> event
   \<Rightarrow> result list \<Rightarrow> exn + result list" where
  "high_odds_event pf fsub fmul target tol ev results =
     (case extract_three_way_odds pf ev of
        Inl e \<Rightarrow> Inl e
      | Inr None \<Rightarrow> Inr results
      | Inr (Some odds) \<Rightarrow>
          if odds = [] then Inr results
          else if all_near fsub target tol odds then
            (case map_of odds Home of None \<Rightarrow> Inl KeyError | Some h \<Rightarrow>
            (case map_of odds Draw of None \<Rightarrow> Inl KeyError | Some d \<Rightarrow>
            (case map_of odds Away of None \<Rightarrow> Inl KeyError | Some a \<Rightarrow>
               Inr (results @
                 [\<lparr>r_event_id = e_id ev, r_sport_key = e_sport_key ev,
                   r_commence_time = e_commence_time ev, r_home_team = e_home_team ev,
                   r_away_team = e_away_team ev, best_odds = odds,
                   r_combined_product = fmul (fmul h d) a\<rparr>]))))
          else Inr results)"

fun high_odds_events ::
  "(string \<Rightarrow> pyfloat option) \<Rightarrow> float_op \<Rightarrow> float_op \<Rightarrow> pyfloat \<Rightarrow> pyfloat \<Rightarrow> event list
   \<Rightarrow> result list \<Rightarrow> exn + result list" where
  "high_odds_events pf fsub fmul target tol [] results = Inr results"
| "high_odds_events pf fsub fmul target tol (ev # evs) results =
     (case high_odds_event pf fsub fmul target tol ev results of
        Inl e \<Rightarrow> Inl e
      | Inr results' \<Rightarrow> high_odds_events pf fsub fmul target tol evs results')"

text \<open>\<^verbatim>\<open>if max_events_per_sport: events = events[:max_events_per_sport]\<close>\<close>

definition first_events :: "int option \<Rightarrow> event list \<Rightarrow> event list" where
  "first_events max_events_per_sport events =
     (case max_events_per_sport of
        None \<Rightarrow> events
      | Some n \<Rightarrow>
          if n = 0 then events
          else if 0 < n then take (nat n) events
          else take (nat (int (length events) + n)) events)"

datatype message = Skipping_sport string exn | Error_fetching string exn

text \<open>
  The loop over the sport keys. Each key comes with the answer of the provider to its
  request; the printed lines are collected in order. \<^verbatim>\<open>except Exception\<close> catches every
  failure of the fetch, and nothing else is inside the \<^verbatim>\<open>try\<close>.
\<close>

fun high_odds_sports ::
  "(string \<Rightarrow> pyfloat option) \<Rightarrow> float_op \<Rightarrow> float_op \<Rightarrow> pyfloat \<Rightarrow> pyfloat \<Rightarrow> int option
   \<Rightarrow> (string \<times> response) list \<Rightarrow> result list \<Rightarrow> message list
   \<Rightarrow> message list \<times> (exn + result list)" where
  "high_odds_sports pf fsub fmul target tol mx [] results out = (out, Inr results)"
| "high_odds_sports pf fsub fmul target tol mx ((skey, resp) # rest) results out =
     (case fetch_odds resp of
        Inl e \<Rightarrow>
          high_odds_sports pf fsub fmul target tol mx rest results
            (out @ [Skipping_sport skey e])
      | Inr events \<Rightarrow>
          (case high_odds_events pf fsub fmul target tol (first_events mx events) results of
             Inl e \<Rightarrow> (out, Inl e)
           | Inr results' \<Rightarrow> high_odds_sports pf fsub fmul target tol mx rest results' out))"

text \<open>
  \<^verbatim>\<open>list.sort(key=..., reverse=True)\<close> is stable and compares keys with \<^verbatim>\<open><\<close> only. On
  keys without NaN a stable sort has one possible result, the one of this insertion
  sort: an element goes before the first one whose key is not greater than its own, so
  elements with equal keys keep their order. With a NaN key the interpreter's order
  depends on how it merges, and is not what this function returns.
\<close>

fun insert_desc :: "('a \<Rightarrow> pyfloat) \<Rightarrow> 'a \<Rightarrow> 'a list \<Rightarrow> 'a list" where
  "insert_desc f x [] = [x]"
| "insert_desc f x (y # ys) =
     (if flt (f x) (f y) then y # insert_desc f x ys else x # y # ys)"

definition sort_reverse :: "('a \<Rightarrow> pyfloat) \<Rightarrow> 'a list \<Rightarrow> 'a list" where
  "sort_reverse f xs = foldr (insert_desc f) xs []"

definition find_high_odds_events ::
  "(string \<Rightarrow> pyfloat option) \<Rightarrow> float_op \<Rightarrow> float_op \<Rightarrow> (string \<times> response) list
   \<Rightarrow> pyfloat \<Rightarrow> pyfloat \<Rightarrow> int option \<Rightarrow> message list \<times> (exn + result list)" where
  "find_high_odds_events pf fsub fmul sport_keys target tol max_events_per_sport =
     (case high_odds_sports pf fsub fmul target tol max_events_per_sport sport_keys [] [] of
        (out, Inl e) \<Rightarrow> (out, Inl e)
      | (out, Inr results) \<Rightarrow> (out, Inr (sort_reverse r_combined_product results)))"

section \<open>Per-bookmaker mode: \<^verbatim>\<open>odds_filter_script.py\<close>\<close>

type_synonym link_dict = "(okey \<times> string option) list"

text \<open>
  One element of the list \<^verbatim>\<open>extract_bookmaker_odds\<close> returns. The key
  \<^verbatim>\<open>combined_product\<close> is absent (\<open>None\<close>) until the filter sets it.
\<close>

record row =
  event_id :: "string option"
  sport_key :: "string option"
  commence_time :: "string option"
  home_team :: "string option"
  away_team :: "string option"
  bookmaker :: "string option"
  bookmaker_title :: "string option"
  home_odds :: pyfloat
  draw_odds :: pyfloat
  away_odds :: pyfloat
  home_link :: "string option"
  draw_link :: "string option"
  away_link :: "string option"
  combined_product :: "pyfloat option"

text \<open>The loop over the outcomes of one market, on the pair \<^verbatim>\<open>odds_map\<close>, \<^verbatim>\<open>link_map\<close>.\<close>

fun bookmaker_outcomes ::
  "(string \<Rightarrow> pyfloat option) \<Rightarrow> event \<Rightarrow> bookmaker \<Rightarrow> market \<Rightarrow> outcome list
   \<Rightarrow> odds_dict \<times> link_dict \<Rightarrow> exn + odds_dict \<times> link_dict" where
  "bookmaker_outcomes pf ev bm mk [] maps = Inr maps"
| "bookmaker_outcomes pf ev bm mk (oc # ocs) (odds_map, link_map) =
     (case outcome_name oc of
        Inl e \<Rightarrow> Inl e
      | Inr name \<Rightarrow>
     (case classify draw_names_bookmaker (e_home_team ev) (e_away_team ev) name of
        None \<Rightarrow> bookmaker_outcomes pf ev bm mk ocs (odds_map, link_map)
      | Some k \<Rightarrow>
          (case py_float pf (o_price oc) of
             Inl e \<Rightarrow>
               if e = TypeError \<or> e = ValueError
               then bookmaker_outcomes pf ev bm mk ocs (odds_map, link_map)
               else Inl e
           | Inr v \<Rightarrow>
               bookmaker_outcomes pf ev bm mk ocs
                 (AList.update k v odds_map,
                  AList.update k (deep_link ev bm mk oc) link_map))))"

text \<open>\<^verbatim>\<open>bookmaker.get("title", book_key)\<close>\<close>

definition book_title :: "bookmaker \<Rightarrow> string option" where
  "book_title bm = (case b_title bm of None \<Rightarrow> b_key bm | Some t \<Rightarrow> Some t)"

text \<open>The dictionary appended to \<^verbatim>\<open>results\<close>; a missing key of a map raises KeyError.\<close>

definition make_row :: "event \<Rightarrow> bookmaker \<Rightarrow> odds_dict \<Rightarrow> link_dict \<Rightarrow> exn + row" where
  "make_row ev bm odds_map link_map =
     (case map_of odds_map Home of None \<Rightarrow> Inl KeyError | Some h \<Rightarrow>
     (case map_of odds_map Draw of None \<Rightarrow> Inl KeyError | Some d \<Rightarrow>
     (case map_of odds_map Away of None \<Rightarrow> Inl KeyError | Some a \<Rightarrow>
     (case map_of link_map Home of None \<Rightarrow> Inl KeyError | Some hl \<Rightarrow>
     (case map_of link_map Draw of None \<Rightarrow> Inl KeyError | Some dl \<Rightarrow>
     (case map_of link_map Away of None \<Rightarrow> Inl KeyError | Some al \<Rightarrow>
        Inr \<lparr>event_id = e_id ev, sport_key = e_sport_key ev,
             commence_time = e_commence_time ev, home_team = e_home_team ev,
             away_team = e_away_team ev, bookmaker = b_key bm,
             bookmaker_title = book_title bm,
             home_odds = h, draw_odds = d, away_odds = a,
             home_link = hl, draw_link = dl, away_link = al,
             combined_product = None\<rparr>))))))"

text \<open>The body of \<^verbatim>\<open>for market in bookmaker.get("markets", [])\<close>: the row it appends, if any.\<close>

definition market_row ::
  "(string \<Rightarrow> pyfloat option) \<Rightarrow> event \<Rightarrow> bookmaker \<Rightarrow> market \<Rightarrow> exn + row option" where
  "market_row pf ev bm mk =
     (if m_key mk \<noteq> Some ''h2h'' then Inr None
      else (case bookmaker_outcomes pf ev bm mk (m_outcomes mk) ([], []) of
              Inl e \<Rightarrow> Inl e
            | Inr (odds_map, link_map) \<Rightarrow>
                if length odds_map = 3
                then (case make_row ev bm odds_map link_map of
                        Inl e \<Rightarrow> Inl e
                      | Inr r \<Rightarrow> Inr (Some r))
                else Inr None))"

fun bookmaker_markets ::
  "(string \<Rightarrow> pyfloat option) \<Rightarrow> event \<Rightarrow> bookmaker \<Rightarrow> market list \<Rightarrow> row list
   \<Rightarrow> exn + row list" where
  "bookmaker_markets pf ev bm [] results = Inr results"
| "bookmaker_markets pf ev bm (mk # mks) results =
     (case market_row pf ev bm mk of
        Inl e \<Rightarrow> Inl e
      | Inr None \<Rightarrow> bookmaker_markets pf ev bm mks results
      | Inr (Some r) \<Rightarrow> bookmaker_markets pf ev bm mks (results @ [r]))"

fun event_bookmakers ::
  "(string \<Rightarrow> pyfloat option) \<Rightarrow> event \<Rightarrow> bookmaker list \<Rightarrow> row list \<Rightarrow> exn + row list" where
  "event_bookmakers pf ev [] results = Inr results"
| "event_bookmakers pf ev (bm # bms) results =
     (case bookmaker_markets pf ev bm (b_markets bm) results of
        Inl e \<Rightarrow> Inl e
      | Inr results' \<Rightarrow> event_bookmakers pf ev bms results')"

definition extract_bookmaker_odds ::
  "(string \<Rightarrow> pyfloat option) \<Rightarrow> event \<Rightarrow> exn + row list" where
  "extract_bookmaker_odds pf ev = event_bookmakers pf ev (e_bookmakers ev) []"

text \<open>The loop \<^verbatim>\<open>for rec in extract_bookmaker_odds(event)\<close> with its filter.\<close>

fun target_rows ::
  "float_op \<Rightarrow> float_op \<Rightarrow> pyfloat \<Rightarrow> pyfloat \<Rightarrow> row list \<Rightarrow> row list \<Rightarrow> row list" where
  "target_rows fsub fmul target tol [] records = records"
| "target_rows fsub fmul target tol (rec # recs) records =
     (if fle (fabs (fsub (home_odds rec) target)) tol
         \<and> fle (fabs (fsub (draw_odds rec) target)) tol
         \<and> fle (fabs (fsub (away_odds rec) target)) tol
      then target_rows fsub fmul target tol recs
             (records @
               [rec\<lparr>combined_product :=
                      Some (fmul (fmul (home_odds rec) (draw_odds rec)) (away_odds rec))\<rparr>])
      else target_rows fsub fmul target tol recs records)"

fun target_events ::
  "(string \<Rightarrow> pyfloat option) \<Rightarrow> float_op \<Rightarrow> float_op \<Rightarrow> pyfloat \<Rightarrow> pyfloat \<Rightarrow> event list
   \<Rightarrow> row list \<Rightarrow> exn + row list" where
  "target_events pf fsub fmul target tol [] records = Inr records"
| "target_events pf fsub fmul target tol (ev # evs) records =
     (case extract_bookmaker_odds pf ev of
        Inl e \<Rightarrow> Inl e
      | Inr recs \<Rightarrow>
          target_events pf fsub fmul target tol evs
            (target_rows fsub fmul target tol recs records))"

fun target_sports ::
  "(string \<Rightarrow> pyfloat option) \<Rightarrow> float_op \<Rightarrow> float_op \<Rightarrow> pyfloat \<Rightarrow> pyfloat
   \<Rightarrow> (string \<times> response) list \<Rightarrow> row list \<Rightarrow> message list
   \<Rightarrow> message list \<times> (exn + row list)" where
  "target_sports pf fsub fmul target tol [] records out = (out, Inr records)"
| "target_sports pf fsub fmul target tol ((skey, resp) # rest) records out =
     (case fetch_odds resp of
        Inl e \<Rightarrow>
          target_sports pf fsub fmul target tol rest records (out @ [Error_fetching skey e])
      | Inr events \<Rightarrow>
          (case target_events pf fsub fmul target tol events records of
             Inl e \<Rightarrow> (out, Inl e)
           | Inr records' \<Rightarrow> target_sports pf fsub fmul target tol rest records' out))"

text \<open>
  \<^verbatim>\<open>DataFrame.sort_values("combined_product", ascending=False)\<close> is the library's: called
  without \<^verbatim>\<open>kind\<close> it sorts with its default algorithm, which the library documents as
  not stable. It is the parameter \<open>sort_values\<close>, and \<open>sorts_descending\<close> is what the
  library promises of it: the same rows, and in non-increasing order of the column when
  no value of the column is NaN. Every row of the frame has the column.
\<close>

definition the_product :: "row \<Rightarrow> pyfloat" where
  "the_product r = (case combined_product r of None \<Rightarrow> NaN | Some p \<Rightarrow> p)"

definition sorts_descending :: "(row list \<Rightarrow> row list) \<Rightarrow> bool" where
  "sorts_descending sort_values =
     (\<forall>rows. mset (sort_values rows) = mset rows
           \<and> (NaN \<notin> the_product ` set rows \<longrightarrow>
                sorted_wrt (\<lambda>a b. fle (the_product b) (the_product a)) (sort_values rows)))"

definition find_events_with_target_odds ::
  "(row list \<Rightarrow> row list) \<Rightarrow> (string \<Rightarrow> pyfloat option) \<Rightarrow> float_op \<Rightarrow> float_op
   \<Rightarrow> (string \<times> response) list \<Rightarrow> pyfloat \<Rightarrow> pyfloat
   \<Rightarrow> message list \<times> (exn + row list)" where
  "find_events_with_target_odds sort_values pf fsub fmul sport_keys target tol =
     (case target_sports pf fsub fmul target tol sport_keys [] [] of
        (out, Inl e) \<Rightarrow> (out, Inl e)
      | (out, Inr records) \<Rightarrow>
          (out, Inr (if records = [] then [] else sort_values records)))"

section \<open>What the claims speak of\<close>

text \<open>The classification of an outcome, when its name is a string that has one.\<close>

definition outcome_class ::
  "string list \<Rightarrow> string option \<Rightarrow> string option \<Rightarrow> outcome \<Rightarrow> okey option" where
  "outcome_class syn hteam ateam oc =
     (case outcome_name oc of Inl e \<Rightarrow> None | Inr name \<Rightarrow> classify syn hteam ateam name)"

text \<open>
  The price an outcome contributes to classification \<open>k\<close>: its converted price when its
  name classifies to \<open>k\<close> and \<^verbatim>\<open>float\<close> accepts the price, nothing otherwise.
\<close>

definition outcome_price ::
  "(string \<Rightarrow> pyfloat option) \<Rightarrow> string list \<Rightarrow> string option \<Rightarrow> string option \<Rightarrow> okey
   \<Rightarrow> outcome \<Rightarrow> pyfloat option" where
  "outcome_price pf syn hteam ateam k oc =
     (if outcome_class syn hteam ateam oc = Some k
      then (case py_float pf (o_price oc) of Inl e \<Rightarrow> None | Inr v \<Rightarrow> Some v)
      else None)"

text \<open>All outcomes of the \<^verbatim>\<open>h2h\<close> markets of every bookmaker of an event, in order.\<close>

definition h2h_outcomes :: "event \<Rightarrow> outcome list" where
  "h2h_outcomes ev =
     concat (map (\<lambda>bm. concat (map m_outcomes
                          (filter (\<lambda>mk. m_key mk = Some ''h2h'') (b_markets bm))))
              (e_bookmakers ev))"

text \<open>The numerically valid prices of classification \<open>k\<close> in an event (aggregate mode).\<close>

definition class_prices :: "(string \<Rightarrow> pyfloat option) \<Rightarrow> event \<Rightarrow> okey \<Rightarrow> pyfloat list" where
  "class_prices pf ev k =
     List.map_filter
       (outcome_price pf draw_names_three_way (e_home_team ev) (e_away_team ev) k)
       (h2h_outcomes ev)"

text \<open>
  The outcomes of one market that classify to \<open>k\<close> (per-bookmaker mode), in market order:
  all of them, and those with a valid price.
\<close>

definition classified_outcomes :: "event \<Rightarrow> okey \<Rightarrow> market \<Rightarrow> outcome list" where
  "classified_outcomes ev k mk =
     filter (\<lambda>oc. outcome_class draw_names_bookmaker (e_home_team ev) (e_away_team ev) oc
                    = Some k)
       (m_outcomes mk)"

definition market_outcomes ::
  "(string \<Rightarrow> pyfloat option) \<Rightarrow> event \<Rightarrow> okey \<Rightarrow> market \<Rightarrow> outcome list" where
  "market_outcomes pf ev k mk =
     filter (\<lambda>oc. outcome_price pf draw_names_bookmaker (e_home_team ev) (e_away_team ev) k oc
                    \<noteq> None)
       (m_outcomes mk)"

text \<open>The converted price of an outcome; NaN stands in where there is none.\<close>

definition price_of :: "(string \<Rightarrow> pyfloat option) \<Rightarrow> outcome \<Rightarrow> pyfloat" where
  "price_of pf oc = (case py_float pf (o_price oc) of Inl e \<Rightarrow> NaN | Inr v \<Rightarrow> v)"

text \<open>Every bookmaker of an event with each of its markets, in the order of the loops.\<close>

definition market_pairs :: "event \<Rightarrow> (bookmaker \<times> market) list" where
  "market_pairs ev = concat (map (\<lambda>bm. map (Pair bm) (b_markets bm)) (e_bookmakers ev))"

text \<open>The rows that the markets of a list of pairs yield, one at most for each market.\<close>

definition rows_of ::
  "(string \<Rightarrow> pyfloat option) \<Rightarrow> event \<Rightarrow> (bookmaker \<times> market) list \<Rightarrow> row list" where
  "rows_of pf ev pairs =
     List.map_filter
       (\<lambda>(bm, mk). case market_row pf ev bm mk of Inl e \<Rightarrow> None | Inr res \<Rightarrow> res) pairs"

text \<open>The filter condition of both scripts on one price.\<close>

definition near :: "float_op \<Rightarrow> pyfloat \<Rightarrow> pyfloat \<Rightarrow> pyfloat \<Rightarrow> bool" where
  "near fsub target tol x = fle (fabs (fsub x target)) tol"

text \<open>A row with its \<^verbatim>\<open>combined_product\<close> set, as the filter appends it.\<close>

definition with_product :: "float_op \<Rightarrow> row \<Rightarrow> row" where
  "with_product fmul rec =
     rec\<lparr>combined_product :=
           Some (fmul (fmul (home_odds rec) (draw_odds rec)) (away_odds rec))\<rparr>"

text \<open>The filter condition on the three prices of a row.\<close>

definition row_near :: "float_op \<Rightarrow> pyfloat \<Rightarrow> pyfloat \<Rightarrow> row \<Rightarrow> bool" where
  "row_near fsub target tol rec =
     (near fsub target tol (home_odds rec) \<and> near fsub target tol (draw_odds rec)
      \<and> near fsub target tol (away_odds rec))"

text \<open>The rows that the per-bookmaker extractor returns for a list of events, in order.\<close>

definition extracted_rows :: "(string \<Rightarrow> pyfloat option) \<Rightarrow> event list \<Rightarrow> row list" where
  "extracted_rows pf evs =
     concat (map (\<lambda>ev. case extract_bookmaker_odds pf ev of Inl e \<Rightarrow> [] | Inr rows \<Rightarrow> rows) evs)"

text \<open>The filter condition on the three prices of a record of aggregate mode.\<close>

definition result_near :: "float_op \<Rightarrow> pyfloat \<Rightarrow> pyfloat \<Rightarrow> result \<Rightarrow> bool" where
  "result_near fsub target tol r =
     (case (map_of (best_odds r) Home, map_of (best_odds r) Draw, map_of (best_odds r) Away) of
        (Some h, Some d, Some a) \<Rightarrow>
          near fsub target tol h \<and> near fsub target tol d \<and> near fsub target tol a
      | _ \<Rightarrow> False)"

text \<open>The events that the requests of a run fetch, in order.\<close>

definition fetched_events :: "(string \<times> response) list \<Rightarrow> event list" where
  "fetched_events sport_keys =
     concat (map (\<lambda>(skey, resp). case fetch_odds resp of Inl e \<Rightarrow> [] | Inr events \<Rightarrow> events)
              sport_keys)"

text \<open>Elements with equal keys are in the same relative order in both lists.\<close>

definition stable_on :: "('a \<Rightarrow> pyfloat) \<Rightarrow> 'a list \<Rightarrow> 'a list \<Rightarrow> bool" where
  "stable_on f xs ys = (\<forall>p. filter (\<lambda>x. f x = p) ys = filter (\<lambda>x. f x = p) xs)"

section \<open>Sample data\<close>

text \<open>
  A match Lyon against Nice, used to run the definitions. \<open>float_of_string\<close> is
  \<^verbatim>\<open>float\<close> on the strings that occur in the samples: \<^verbatim>\<open>"3.4"\<close> is a number, \<^verbatim>\<open>"nan"\<close> is
  NaN, \<^verbatim>\<open>"N/A"\<close> and every other string here is rejected. \<open>sample_sub\<close> and \<open>sample_mul\<close>
  are the float operations on the sample prices.
\<close>

definition float_of_string :: "string \<Rightarrow> pyfloat option" where
  "float_of_string s =
     (if s = ''3.4'' then Some (Finite (17 / 5))
      else if s = ''nan'' then Some NaN
      else None)"

fun sample_sub :: float_op where
  "sample_sub (Finite x) (Finite y) = Finite (x - y)"
| "sample_sub a b = NaN"

fun sample_mul :: float_op where
  "sample_mul (Finite x) (Finite y) = Finite (x * y)"
| "sample_mul a b = NaN"

definition an_outcome :: "string \<Rightarrow> json \<Rightarrow> outcome" where
  "an_outcome n p = \<lparr>o_name = Some (JStr n), o_price = p, o_link = None\<rparr>"

definition a_linked_outcome :: "string \<Rightarrow> json \<Rightarrow> string \<Rightarrow> outcome" where
  "a_linked_outcome n p l = \<lparr>o_name = Some (JStr n), o_price = p, o_link = Some l\<rparr>"

definition an_h2h_market :: "outcome list \<Rightarrow> market" where
  "an_h2h_market ocs = \<lparr>m_key = Some ''h2h'', m_outcomes = ocs, m_link = None\<rparr>"

definition a_bookmaker :: "string \<Rightarrow> market list \<Rightarrow> bookmaker" where
  "a_bookmaker k mks = \<lparr>b_key = Some k, b_title = None, b_markets = mks, b_link = None\<rparr>"

definition a_match :: "bookmaker list \<Rightarrow> event" where
  "a_match bms =
     \<lparr>e_id = Some ''e1'', e_sport_key = Some ''soccer_epl'', e_commence_time = None,
      e_home_team = Some ''Lyon'', e_away_team = Some ''Nice'', e_bookmakers = bms,
      e_link = None\<rparr>"

text \<open>Two bookmakers; the second one has an unparseable draw price and a second draw label.\<close>

definition two_books :: event where
  "two_books =
     a_match
       [a_bookmaker ''alpha''
          [an_h2h_market
             [an_outcome ''Lyon'' (JFloat (Finite (5 / 2))), an_outcome ''Draw'' (JStr ''3.4''),
              an_outcome ''Nice'' (JInt 3)]],
        a_bookmaker ''beta''
          [an_h2h_market
             [an_outcome ''Lyon'' (JFloat (Finite (13 / 5))), an_outcome ''DRAW'' (JStr ''N/A''),
              an_outcome ''Nice'' (JFloat (Finite (29 / 10))),
              an_outcome ''tie'' (JFloat (Finite (33 / 10))),
              an_outcome ''Paris'' JNull]]]"

text \<open>A match where no outcome is labelled as a draw.\<close>

definition no_draw :: event where
  "no_draw =
     a_match
       [a_bookmaker ''alpha''
          [an_h2h_market
             [an_outcome ''Lyon'' (JFloat (Finite (5 / 2))), an_outcome ''Nice'' (JInt 3)]]]"

text \<open>A market that lists the home team twice, the higher price first.\<close>

definition home_twice :: market where
  "home_twice =
     an_h2h_market
       [a_linked_outcome ''Lyon'' (JInt 5) ''first'', an_outcome ''Draw'' (JStr ''3.4''),
        a_linked_outcome ''Lyon'' (JInt 2) ''second'', an_outcome ''Nice'' (JInt 3)]"

text \<open>The same market when the price of the second home outcome is not a number.\<close>

definition home_last_invalid :: market where
  "home_last_invalid =
     an_h2h_market
       [a_linked_outcome ''Lyon'' (JInt 5) ''first'', an_outcome ''Draw'' (JStr ''3.4''),
        a_linked_outcome ''Lyon'' (JStr ''N/A'') ''second'', an_outcome ''Nice'' (JInt 3)]"

text \<open>One bookmaker whose answer holds two complete \<^verbatim>\<open>h2h\<close> markets.\<close>

definition two_h2h_markets :: event where
  "two_h2h_markets =
     a_match
       [a_bookmaker ''alpha''
          [an_h2h_market
             [an_outcome ''Lyon'' (JFloat (Finite (5 / 2))), an_outcome ''Draw'' (JStr ''3.4''),
              an_outcome ''Nice'' (JInt 3)],
           an_h2h_market
             [an_outcome ''Lyon'' (JFloat (Finite (13 / 5))),
              an_outcome ''Draw'' (JFloat (Finite (33 / 10))),
              an_outcome ''Nice'' (JFloat (Finite (29 / 10)))]]]"

text \<open>A home price that is NaN, followed by a home price of 5; and the other order.\<close>

definition nan_first :: event where
  "nan_first =
     a_match
       [a_bookmaker ''alpha''
          [an_h2h_market
             [an_outcome ''Lyon'' (JStr ''nan''), an_outcome ''Lyon'' (JInt 5),
              an_outcome ''Draw'' (JStr ''3.4''), an_outcome ''Nice'' (JInt 3)]]]"

definition nan_last :: event where
  "nan_last =
     a_match
       [a_bookmaker ''alpha''
          [an_h2h_market
             [an_outcome ''Lyon'' (JInt 5), an_outcome ''Lyon'' (JStr ''nan''),
              an_outcome ''Draw'' (JStr ''3.4''), an_outcome ''Nice'' (JInt 3)]]]"

text \<open>A draw price that is the integer \<open>2 ^ 1024\<close>, of 309 digits, in a complete market.\<close>

definition too_big :: int where
  "too_big = 2 ^ 1024"

definition huge_price :: event where
  "huge_price =
     a_match
       [a_bookmaker ''alpha''
          [an_h2h_market
             [an_outcome ''Lyon'' (JFloat (Finite (5 / 2))), an_outcome ''Draw'' (JInt too_big),
              an_outcome ''Nice'' (JInt 3)]]]"

text \<open>The row of a bookmaker for the sample match, with the given prices and home link.\<close>

definition book_row :: "string \<Rightarrow> real \<Rightarrow> real \<Rightarrow> real \<Rightarrow> string option \<Rightarrow> row" where
  "book_row b h d a hl =
     \<lparr>event_id = Some ''e1'', sport_key = Some ''soccer_epl'', commence_time = None,
      home_team = Some ''Lyon'', away_team = Some ''Nice'', bookmaker = Some b,
      bookmaker_title = Some b, home_odds = Finite h, draw_odds = Finite d,
      away_odds = Finite a, home_link = hl, draw_link = None, away_link = None,
      combined_product = None\<rparr>"

definition alpha_row :: "real \<Rightarrow> real \<Rightarrow> real \<Rightarrow> string option \<Rightarrow> row" where
  "alpha_row h d a hl = book_row ''alpha'' h d a hl"

text \<open>
  Three bookmakers for one match: gamma and epsilon offer the same three prices, hence
  the same product; delta has a home price of 2, too far from the target 3.
\<close>

definition three_books :: event where
  "three_books =
     a_match
       [a_bookmaker ''gamma''
          [an_h2h_market
             [an_outcome ''Lyon'' (JFloat (Finite (5 / 2))), an_outcome ''Draw'' (JStr ''3.4''),
              an_outcome ''Nice'' (JInt 3)]],
        a_bookmaker ''delta''
          [an_h2h_market
             [an_outcome ''Lyon'' (JInt 2), an_outcome ''Draw'' (JStr ''3.4''),
              an_outcome ''Nice'' (JInt 3)]],
        a_bookmaker ''epsilon''
          [an_h2h_market
             [an_outcome ''Lyon'' (JFloat (Finite (5 / 2))), an_outcome ''Draw'' (JStr ''3.4''),
              an_outcome ''Nice'' (JInt 3)]]]"

text \<open>
  A run over four sport keys: the first is answered with the match of the three
  bookmakers, the second is not found, the request of the third fails, the fourth is
  answered with the match of the two bookmakers.
\<close>

definition a_run :: "(string \<times> response) list" where
  "a_run =
     [(''soccer_epl'', Response 200 (Some [three_books])),
      (''soccer_off'', Response 404 None),
      (''soccer_down'', No_response),
      (''soccer_liga'', Response 200 (Some [two_books]))]"

text \<open>A row that passed the filter, and a record of aggregate mode, for the sample match.\<close>

definition ranked_row :: "string \<Rightarrow> real \<Rightarrow> real \<Rightarrow> real \<Rightarrow> real \<Rightarrow> row" where
  "ranked_row b h d a p = (book_row b h d a None)\<lparr>combined_product := Some (Finite p)\<rparr>"

definition best_record :: "real \<Rightarrow> real \<Rightarrow> real \<Rightarrow> real \<Rightarrow> result" where
  "best_record h d a p =
     \<lparr>r_event_id = Some ''e1'', r_sport_key = Some ''soccer_epl'', r_commence_time = None,
      r_home_team = Some ''Lyon'', r_away_team = Some ''Nice'',
      best_odds = [(Home, Finite h), (Draw, Finite d), (Away, Finite a)],
      r_combined_product = Finite p\<rparr>"

text \<open>
  A sort that meets what the library promises and puts rows with equal products in the
  reverse of their order in the frame.
\<close>

definition ties_reversed :: "row list \<Rightarrow> row list" where
  "ties_reversed rows = sort_reverse the_product (rev rows)"

text \<open>An event, a bookmaker, a market and an outcome with the given \<^verbatim>\<open>link\<close> fields.\<close>

definition linked_event :: "string option \<Rightarrow> event" where
  "linked_event l =
     \<lparr>e_id = None, e_sport_key = None, e_commence_time = None, e_home_team = None,
      e_away_team = None, e_bookmakers = [], e_link = l\<rparr>"

definition linked_bookmaker :: "string option \<Rightarrow> bookmaker" where
  "linked_bookmaker l = \<lparr>b_key = None, b_title = None, b_markets = [], b_link = l\<rparr>"

definition linked_market :: "string option \<Rightarrow> market" where
  "linked_market l = \<lparr>m_key = None, m_outcomes = [], m_link = l\<rparr>"

definition linked_outcome :: "string option \<Rightarrow> outcome" where
  "linked_outcome l = \<lparr>o_name = None, o_price = JNull, o_link = l\<rparr>"

section \<open>Evaluating the samples\<close>

lemmas sample_defs = float_of_string_def an_outcome_def a_linked_outcome_def an_h2h_market_def
  a_bookmaker_def a_match_def two_books_def no_draw_def home_twice_def home_last_invalid_def
  two_h2h_markets_def nan_first_def nan_last_def huge_price_def
  book_row_def alpha_row_def three_books_def a_run_def ranked_row_def best_record_def

lemmas extractor_defs = classify_def outcome_name_def outcome_class_def py_float_def
  round_to_double_def outcome_price_def draw_names_three_way_def draw_names_bookmaker_def
  egalite_def

lemma py_lower_samples:
  "py_lower ''Lyon'' = ''lyon''" "py_lower ''Nice'' = ''nice''" "py_lower ''Paris'' = ''paris''"
  "py_lower ''Draw'' = ''draw''" "py_lower ''DRAW'' = ''draw''" "py_lower ''tie'' = ''tie''"
  by code_simp+

text \<open>\<^verbatim>\<open>float(2 ** 1024)\<close> raises OverflowError: a power of two rounds to itself.\<close>

lemma round_to_double_power:
  assumes "53 \<le> k"
  shows "round_to_double (2 ^ k) = 2 ^ k"
proof -
  have fl: "floorlog 2 (2 ^ k) = k + 1"
    using floorlog_power [of 1 2 k] by (simp add: compute_floorlog)
  have big: "\<not> (2::nat) ^ k < 2 ^ 53"
    using assms by (simp add: not_less power_increasing del: power_numeral)
  have e: "k + 1 - 53 = k - 52" by simp
  have q: "(2::nat) ^ k div 2 ^ (k - 52) = 2 ^ 52"
    using assms by (simp add: power_diff [symmetric] del: power_numeral)
  have r: "(2::nat) ^ k mod 2 ^ (k - 52) = 0"
    using assms by (simp add: le_imp_power_dvd del: power_numeral)
  have recompose: "(2::nat) ^ 52 * 2 ^ (k - 52) = 2 ^ k"
    using assms by (simp add: power_add [symmetric] del: power_numeral)
  show ?thesis
    unfolding round_to_double_def Let_def fl e q r using big recompose
    by (simp del: power_numeral)
qed

lemma py_float_too_big: "py_float pf (JInt too_big) = Inl OverflowError"
proof -
  have n: "nat \<bar>too_big\<bar> = 2 ^ 1024"
    unfolding too_big_def by (simp add: nat_power_eq del: power_numeral)
  have r: "round_to_double (2 ^ 1024) = 2 ^ 1024"
    by (rule round_to_double_power) simp
  show ?thesis
    unfolding py_float_def json.case n r Let_def by (simp del: power_numeral)
qed

section \<open>Aggregate mode: the dictionary of best prices\<close>

text \<open>The three nested loops are one loop over the outcomes of the \<^verbatim>\<open>h2h\<close> markets.\<close>

lemma three_way_outcomes_append:
  "three_way_outcomes pf h a (xs @ ys) best =
     (case three_way_outcomes pf h a xs best of
        Inl e \<Rightarrow> Inl e
      | Inr b \<Rightarrow> three_way_outcomes pf h a ys b)"
  by (induction xs arbitrary: best) (auto split: option.splits sum.splits)

lemma three_way_markets_flat:
  "three_way_markets pf h a mks best =
     three_way_outcomes pf h a
       (concat (map m_outcomes (filter (\<lambda>mk. m_key mk = Some ''h2h'') mks))) best"
  by (induction mks arbitrary: best)
     (auto simp: three_way_outcomes_append split: sum.splits)

lemma three_way_bookmakers_flat:
  "three_way_bookmakers pf h a bms best =
     three_way_outcomes pf h a
       (concat (map (\<lambda>bm. concat (map m_outcomes
                          (filter (\<lambda>mk. m_key mk = Some ''h2h'') (b_markets bm)))) bms)) best"
  by (induction bms arbitrary: best)
     (auto simp: three_way_outcomes_append three_way_markets_flat split: sum.splits)

text \<open>A key is in the dictionary exactly when some outcome contributed a price to it.\<close>

lemma map_of_keep_best_None:
  "(map_of (keep_best k v best) k' = None) = (k' \<noteq> k \<and> map_of best k' = None)"
  by (auto simp: keep_best_def update_conv' split: option.splits)

lemma three_way_outcomes_keys:
  "three_way_outcomes pf h a ocs best = Inr best' \<Longrightarrow>
   (map_of best' k = None) =
     (map_of best k = None
      \<and> List.map_filter (outcome_price pf draw_names_three_way h a k) ocs = [])"
proof (induction ocs arbitrary: best)
  case Nil
  then show ?case by simp
next
  case (Cons oc ocs)
  show ?case
  proof (cases "outcome_name oc")
    case (Inl e)
    with Cons.prems show ?thesis by simp
  next
    case name: (Inr name)
    show ?thesis
    proof (cases "classify draw_names_three_way h a name")
      case None
      with name Cons.prems have "three_way_outcomes pf h a ocs best = Inr best'" by simp
      from Cons.IH [OF this] name None show ?thesis
        by (simp add: outcome_price_def outcome_class_def)
    next
      case (Some k')
      show ?thesis
      proof (cases "py_float pf (o_price oc)")
        case (Inl e)
        with name Some Cons.prems have "three_way_outcomes pf h a ocs best = Inr best'"
          by (simp split: if_splits)
        from Cons.IH [OF this] name Some Inl show ?thesis
          by (simp add: outcome_price_def outcome_class_def)
      next
        case (Inr v)
        with name Some Cons.prems
        have "three_way_outcomes pf h a ocs (keep_best k' v best) = Inr best'" by simp
        from Cons.IH [OF this] name Some Inr show ?thesis
          by (cases "k' = k")
             (simp_all add: outcome_price_def outcome_class_def map_of_keep_best_None)
      qed
    qed
  qed
qed

text \<open>The keys of the dictionary stay distinct, so its length counts the classifications.\<close>

lemma distinct_keep_best:
  "distinct (map fst best) \<Longrightarrow> distinct (map fst (keep_best k v best))"
  by (auto simp: keep_best_def distinct_update split: option.splits)

lemma three_way_outcomes_distinct:
  "three_way_outcomes pf h a ocs best = Inr best' \<Longrightarrow> distinct (map fst best) \<Longrightarrow>
   distinct (map fst best')"
  by (induction ocs arbitrary: best)
     (auto simp: distinct_keep_best split: option.splits sum.splits if_splits)

lemma UNIV_okey: "(UNIV :: okey set) = {Home, Draw, Away}"
  using okey.exhaust by auto

lemma dict_len_3:
  fixes d :: "(okey \<times> 'v) list"
  assumes "distinct (map fst d)"
  shows "(length d = 3) = (\<forall>k. map_of d k \<noteq> None)"
proof -
  have c: "card (fst ` set d) = length d"
    using assms distinct_card [of "map fst d"] by simp
  have u: "card (UNIV :: okey set) = 3" by (simp add: UNIV_okey)
  have "(\<forall>k. map_of d k \<noteq> None) = (fst ` set d = UNIV)"
    by (auto simp: map_of_eq_None_iff)
  also have "\<dots> = (card (fst ` set d) = 3)"
  proof
    assume "fst ` set d = UNIV"
    then show "card (fst ` set d) = 3" using u by simp
  next
    assume "card (fst ` set d) = 3"
    then have "card (fst ` set d) = card (UNIV :: okey set)" using u by simp
    moreover have "finite (UNIV :: okey set)" by (simp add: UNIV_okey)
    ultimately show "fst ` set d = UNIV"
      using card_subset_eq [of "UNIV :: okey set" "fst ` set d"] by blast
  qed
  finally show ?thesis using c by simp
qed

lemma extract_three_way_odds_result:
  assumes "extract_three_way_odds pf ev = Inr res"
  shows "(res \<noteq> None) = (\<forall>k. class_prices pf ev k \<noteq> [])"
    and "res = Some odds \<Longrightarrow> distinct (map fst odds) \<and> length odds = 3"
proof -
  obtain best
    where b: "three_way_outcomes pf (e_home_team ev) (e_away_team ev) (h2h_outcomes ev) []
                = Inr best"
      and r: "res = (if length best = 3 then Some best else None)"
    using assms
    by (auto simp: extract_three_way_odds_def three_way_bookmakers_flat h2h_outcomes_def
             split: sum.splits)
  have d: "distinct (map fst best)"
    using three_way_outcomes_distinct [OF b] by simp
  have m: "(map_of best k = None) = (class_prices pf ev k = [])" for k
    using three_way_outcomes_keys [OF b, of k] by (simp add: class_prices_def)
  show "(res \<noteq> None) = (\<forall>k. class_prices pf ev k \<noteq> [])"
    using r dict_len_3 [OF d] m by auto
  show "distinct (map fst odds) \<and> length odds = 3" if "res = Some odds"
    using that r d by (auto split: if_splits)
qed

section \<open>Per-bookmaker mode: one row for each complete market\<close>

text \<open>The two maps after the loop: the last valid outcome of each classification wins.\<close>

lemma bookmaker_outcomes_maps:
  "bookmaker_outcomes pf ev bm mk ocs (om, lm) = Inr (om', lm') \<Longrightarrow>
   map_of om' k =
     (let cands = filter (\<lambda>oc. outcome_price pf draw_names_bookmaker (e_home_team ev) (e_away_team ev) k oc \<noteq> None) ocs
      in if cands = [] then map_of om k else Some (price_of pf (last cands)))
   \<and> map_of lm' k =
     (let cands = filter (\<lambda>oc. outcome_price pf draw_names_bookmaker (e_home_team ev) (e_away_team ev) k oc \<noteq> None) ocs
      in if cands = [] then map_of lm k else Some (deep_link ev bm mk (last cands)))"
proof (induction ocs arbitrary: om lm)
  case Nil
  then show ?case by simp
next
  case (Cons oc ocs)
  show ?case
  proof (cases "outcome_name oc")
    case (Inl e)
    with Cons.prems show ?thesis by simp
  next
    case name: (Inr name)
    show ?thesis
    proof (cases "classify draw_names_bookmaker (e_home_team ev) (e_away_team ev) name")
      case None
      with name Cons.prems
      have "bookmaker_outcomes pf ev bm mk ocs (om, lm) = Inr (om', lm')" by simp
      from Cons.IH [OF this] name None show ?thesis
        by (simp add: outcome_price_def outcome_class_def Let_def)
    next
      case (Some k')
      show ?thesis
      proof (cases "py_float pf (o_price oc)")
        case (Inl e)
        with name Some Cons.prems
        have "bookmaker_outcomes pf ev bm mk ocs (om, lm) = Inr (om', lm')"
          by (simp split: if_splits)
        from Cons.IH [OF this] name Some Inl show ?thesis
          by (simp add: outcome_price_def outcome_class_def Let_def)
      next
        case (Inr v)
        with name Some Cons.prems have
          "bookmaker_outcomes pf ev bm mk ocs
             (AList.update k' v om, AList.update k' (deep_link ev bm mk oc) lm) = Inr (om', lm')"
          by simp
        from Cons.IH [OF this] name Some Inr show ?thesis
          by (auto simp: outcome_price_def outcome_class_def Let_def update_conv' price_of_def)
      qed
    qed
  qed
qed

lemma bookmaker_outcomes_keys:
  "bookmaker_outcomes pf ev bm mk ocs (om, lm) = Inr (om', lm') \<Longrightarrow>
   map fst om = map fst lm \<Longrightarrow> distinct (map fst om) \<Longrightarrow>
   map fst om' = map fst lm' \<and> distinct (map fst om')"
proof (induction ocs arbitrary: om lm)
  case Nil
  then show ?case by simp
next
  case (Cons oc ocs)
  consider (skip) "bookmaker_outcomes pf ev bm mk ocs (om, lm) = Inr (om', lm')"
    | (store) k' v where
        "bookmaker_outcomes pf ev bm mk ocs
           (AList.update k' v om, AList.update k' (deep_link ev bm mk oc) lm) = Inr (om', lm')"
    using Cons.prems(1) by (auto split: option.splits sum.splits if_splits)
  then show ?case
  proof cases
    case skip
    then show ?thesis using Cons.IH Cons.prems(2,3) by blast
  next
    case store
    have "map fst (AList.update k' v om) = map fst (AList.update k' (deep_link ev bm mk oc) lm)"
      using Cons.prems(2) by (simp add: update_keys)
    moreover have "distinct (map fst (AList.update k' v om))"
      using Cons.prems(3) by (simp add: distinct_update)
    ultimately show ?thesis using Cons.IH store by blast
  qed
qed

lemma market_row_result:
  assumes "market_row pf ev bm mk = Inr res"
  shows "(res \<noteq> None) = (m_key mk = Some ''h2h'' \<and> (\<forall>k. market_outcomes pf ev k mk \<noteq> []))"
    and "res = Some r \<Longrightarrow>
           home_odds r = price_of pf (last (market_outcomes pf ev Home mk))
         \<and> draw_odds r = price_of pf (last (market_outcomes pf ev Draw mk))
         \<and> away_odds r = price_of pf (last (market_outcomes pf ev Away mk))
         \<and> home_link r = deep_link ev bm mk (last (market_outcomes pf ev Home mk))
         \<and> draw_link r = deep_link ev bm mk (last (market_outcomes pf ev Draw mk))
         \<and> away_link r = deep_link ev bm mk (last (market_outcomes pf ev Away mk))
         \<and> bookmaker r = b_key bm \<and> event_id r = e_id ev \<and> combined_product r = None"
proof -
  show "(res \<noteq> None) = (m_key mk = Some ''h2h'' \<and> (\<forall>k. market_outcomes pf ev k mk \<noteq> []))"
  proof (cases "m_key mk = Some ''h2h''")
    case False
    then show ?thesis using assms by (simp add: market_row_def)
  next
    case True
    then obtain om lm where
      o: "bookmaker_outcomes pf ev bm mk (m_outcomes mk) ([], []) = Inr (om, lm)"
      using assms by (auto simp: market_row_def split: sum.splits)
    have "map fst om = map fst lm \<and> distinct (map fst om)"
      by (rule bookmaker_outcomes_keys [OF o]) simp_all
    then have keys: "map fst om = map fst lm" "distinct (map fst om)"
      by blast+
    have m: "map_of om k = (if market_outcomes pf ev k mk = [] then None
                else Some (price_of pf (last (market_outcomes pf ev k mk))))"
            "map_of lm k = (if market_outcomes pf ev k mk = [] then None
                else Some (deep_link ev bm mk (last (market_outcomes pf ev k mk))))" for k
      using bookmaker_outcomes_maps [OF o, of k] by (simp_all add: Let_def market_outcomes_def)
    have l3: "(length om = 3) = (\<forall>k. market_outcomes pf ev k mk \<noteq> [])"
      using dict_len_3 [OF keys(2)] m(1) by auto
    show ?thesis
    proof (cases "length om = 3")
      case False
      then have "res = None" using assms True o by (simp add: market_row_def)
      then show ?thesis using False True l3 by simp
    next
      case len: True
      then have all: "\<And>k. market_outcomes pf ev k mk \<noteq> []" using l3 by simp
      then obtain r where "make_row ev bm om lm = Inr r"
        by (simp add: make_row_def m)
      then have "res \<noteq> None" using assms True o len by (auto simp: market_row_def)
      then show ?thesis using True all by simp
    qed
  qed
  show "home_odds r = price_of pf (last (market_outcomes pf ev Home mk))
         \<and> draw_odds r = price_of pf (last (market_outcomes pf ev Draw mk))
         \<and> away_odds r = price_of pf (last (market_outcomes pf ev Away mk))
         \<and> home_link r = deep_link ev bm mk (last (market_outcomes pf ev Home mk))
         \<and> draw_link r = deep_link ev bm mk (last (market_outcomes pf ev Draw mk))
         \<and> away_link r = deep_link ev bm mk (last (market_outcomes pf ev Away mk))
         \<and> bookmaker r = b_key bm \<and> event_id r = e_id ev \<and> combined_product r = None"
    if "res = Some r"
  proof -
    from that assms obtain om lm where
      o: "bookmaker_outcomes pf ev bm mk (m_outcomes mk) ([], []) = Inr (om, lm)"
      and len: "length om = 3" and mr: "make_row ev bm om lm = Inr r"
      by (auto simp: market_row_def split: sum.splits if_splits)
    have "map fst om = map fst lm \<and> distinct (map fst om)"
      by (rule bookmaker_outcomes_keys [OF o]) simp_all
    then have keys: "distinct (map fst om)"
      by blast
    have m: "map_of om k = (if market_outcomes pf ev k mk = [] then None
                else Some (price_of pf (last (market_outcomes pf ev k mk))))"
            "map_of lm k = (if market_outcomes pf ev k mk = [] then None
                else Some (deep_link ev bm mk (last (market_outcomes pf ev k mk))))" for k
      using bookmaker_outcomes_maps [OF o, of k] by (simp_all add: Let_def market_outcomes_def)
    have all: "market_outcomes pf ev k mk \<noteq> []" for k
    proof -
      have "map_of om k \<noteq> None" using dict_len_3 [OF keys] len by simp
      then show ?thesis using m(1) [of k] by (auto split: if_splits)
    qed
    show ?thesis using mr by (auto simp: make_row_def m all)
  qed
qed

text \<open>The rows of an event are the rows of its markets, in the order of the loops.\<close>

lemma rows_of_append: "rows_of pf ev (xs @ ys) = rows_of pf ev xs @ rows_of pf ev ys"
  by (simp add: rows_of_def map_filter_def)

lemma rows_of_Cons:
  "rows_of pf ev ((bm, mk) # pairs) =
     (case market_row pf ev bm mk of
        Inl e \<Rightarrow> rows_of pf ev pairs
      | Inr None \<Rightarrow> rows_of pf ev pairs
      | Inr (Some r) \<Rightarrow> r # rows_of pf ev pairs)"
  by (simp add: rows_of_def split: sum.splits option.splits)

lemma bookmaker_markets_rows:
  "bookmaker_markets pf ev bm mks results = Inr results' \<Longrightarrow>
   results' = results @ rows_of pf ev (map (Pair bm) mks)"
proof (induction mks arbitrary: results)
  case Nil
  then show ?case by (simp add: rows_of_def)
next
  case (Cons mk mks)
  show ?case
  proof (cases "market_row pf ev bm mk")
    case (Inl e)
    with Cons.prems show ?thesis by simp
  next
    case (Inr res)
    show ?thesis
    proof (cases res)
      case None
      with Inr Cons.prems have "bookmaker_markets pf ev bm mks results = Inr results'" by simp
      from Cons.IH [OF this] Inr None show ?thesis by (simp add: rows_of_Cons)
    next
      case (Some r)
      with Inr Cons.prems have "bookmaker_markets pf ev bm mks (results @ [r]) = Inr results'"
        by simp
      from Cons.IH [OF this] Inr Some show ?thesis by (simp add: rows_of_Cons)
    qed
  qed
qed

lemma event_bookmakers_rows:
  "event_bookmakers pf ev bms results = Inr results' \<Longrightarrow>
   results' = results @ rows_of pf ev (concat (map (\<lambda>bm. map (Pair bm) (b_markets bm)) bms))"
proof (induction bms arbitrary: results)
  case Nil
  then show ?case by (simp add: rows_of_def)
next
  case (Cons bm bms)
  from Cons.prems obtain mid where
    m: "bookmaker_markets pf ev bm (b_markets bm) results = Inr mid"
    and r: "event_bookmakers pf ev bms mid = Inr results'"
    by (auto split: sum.splits)
  from bookmaker_markets_rows [OF m] Cons.IH [OF r] show ?case
    by (simp add: rows_of_append)
qed

lemma extract_bookmaker_odds_rows:
  "extract_bookmaker_odds pf ev = Inr rows \<Longrightarrow> rows = rows_of pf ev (market_pairs ev)"
  by (auto simp: extract_bookmaker_odds_def market_pairs_def dest: event_bookmakers_rows)

lemma rows_of_member:
  "r \<in> set (rows_of pf ev pairs) \<Longrightarrow>
   \<exists>(bm, mk) \<in> set pairs. market_row pf ev bm mk = Inr (Some r)"
  by (induction pairs) (auto simp: rows_of_def split: sum.splits option.splits)

lemmas row_defs = extract_bookmaker_odds_def market_row_def make_row_def book_title_def
  deep_link_def py_or_def truthy_def

lemma no_draw_three_way: "extract_three_way_odds float_of_string no_draw = Inr None"
  by (simp add: sample_defs extractor_defs py_lower_samples extract_three_way_odds_def keep_best_def)

lemma no_draw_prices: "class_prices float_of_string no_draw Draw = []"
  by (simp add: sample_defs extractor_defs py_lower_samples class_prices_def h2h_outcomes_def)

lemma home_twice_row:
  "market_row float_of_string (a_match []) (a_bookmaker ''alpha'' []) home_twice
     = Inr (Some (alpha_row 2 (17 / 5) 3 (Some ''second'')))"
  by (simp add: sample_defs row_defs extractor_defs py_lower_samples)

lemma home_twice_home:
  "market_outcomes float_of_string (a_match []) Home home_twice
     = [a_linked_outcome ''Lyon'' (JInt 5) ''first'', a_linked_outcome ''Lyon'' (JInt 2) ''second'']"
  by (simp add: sample_defs market_outcomes_def extractor_defs py_lower_samples)

lemma two_h2h_markets_rows:
  "extract_bookmaker_odds float_of_string two_h2h_markets
     = Inr [alpha_row (5 / 2) (17 / 5) 3 None, alpha_row (13 / 5) (33 / 10) (29 / 10) None]"
  by (simp add: sample_defs row_defs extractor_defs py_lower_samples)

lemma market_outcomes_last_price:
  assumes "market_outcomes pf ev k mk \<noteq> []"
  shows "py_float pf (o_price (last (market_outcomes pf ev k mk)))
           = Inr (price_of pf (last (market_outcomes pf ev k mk)))"
    and "outcome_class draw_names_bookmaker (e_home_team ev) (e_away_team ev)
           (last (market_outcomes pf ev k mk)) = Some k"
proof -
  have "last (market_outcomes pf ev k mk) \<in> set (market_outcomes pf ev k mk)"
    using assms by (rule last_in_set)
  then have p: "outcome_price pf draw_names_bookmaker (e_home_team ev) (e_away_team ev) k
               (last (market_outcomes pf ev k mk)) \<noteq> None"
    by (simp add: market_outcomes_def)
  from p show "py_float pf (o_price (last (market_outcomes pf ev k mk)))
           = Inr (price_of pf (last (market_outcomes pf ev k mk)))"
    by (simp add: outcome_price_def price_of_def split: if_splits sum.splits)
  from p show "outcome_class draw_names_bookmaker (e_home_team ev) (e_away_team ev)
           (last (market_outcomes pf ev k mk)) = Some k"
    by (simp add: outcome_price_def split: if_splits)
qed

lemma nan_first_extracted:
  "extract_three_way_odds float_of_string nan_first
     = Inr (Some [(Home, NaN), (Draw, Finite (17 / 5)), (Away, Finite 3)])"
  by (simp add: sample_defs extractor_defs py_lower_samples extract_three_way_odds_def
        keep_best_def)

lemma nan_last_extracted:
  "extract_three_way_odds float_of_string nan_last
     = Inr (Some [(Home, Finite 5), (Draw, Finite (17 / 5)), (Away, Finite 3)])"
  by (simp add: sample_defs extractor_defs py_lower_samples extract_three_way_odds_def
        keep_best_def)

lemma nan_home_prices:
  "class_prices float_of_string nan_first Home = [NaN, Finite 5]"
  "class_prices float_of_string nan_last Home = [Finite 5, NaN]"
  by (simp_all add: sample_defs extractor_defs py_lower_samples class_prices_def
        h2h_outcomes_def)

lemma home_last_invalid_row:
  "market_row float_of_string (a_match []) (a_bookmaker ''alpha'' []) home_last_invalid
     = Inr (Some (alpha_row 5 (17 / 5) 3 (Some ''first'')))"
  by (simp add: sample_defs row_defs extractor_defs py_lower_samples)

lemma home_last_invalid_home:
  "classified_outcomes (a_match []) Home home_last_invalid
     = [a_linked_outcome ''Lyon'' (JInt 5) ''first'',
        a_linked_outcome ''Lyon'' (JStr ''N/A'') ''second'']"
  by (simp add: sample_defs classified_outcomes_def extractor_defs py_lower_samples)

section \<open>The claims on extraction\<close>

text \<open>
  C3. In aggregate mode the price kept for a classification is not always the maximum of
  its valid prices. \<^verbatim>\<open>float\<close> accepts \<^verbatim>\<open>"nan"\<close>, and \<^verbatim>\<open>price_val > best_odds[outcome_key]\<close>
  is false whenever one side is NaN: when the home team is priced NaN and then 5 the
  dictionary holds NaN for home, and when it is priced 5 and then NaN it holds 5. The
  result depends on the order of the same prices, where the docstring of
  \<^verbatim>\<open>extract_three_way_odds\<close> says that the maximum price is picked.
\<close>

theorem best_price_depends_on_order:
  "extract_three_way_odds float_of_string nan_first
     = Inr (Some [(Home, NaN), (Draw, Finite (17 / 5)), (Away, Finite 3)])
   \<and> class_prices float_of_string nan_first Home = [NaN, Finite 5]
   \<and> extract_three_way_odds float_of_string nan_last
     = Inr (Some [(Home, Finite 5), (Draw, Finite (17 / 5)), (Away, Finite 3)])
   \<and> class_prices float_of_string nan_last Home = [Finite 5, NaN]"
  using nan_first_extracted nan_last_extracted nan_home_prices by blast

text \<open>
  C4. A record needs all three classifications. In aggregate mode the extractor, when it
  returns, returns a dictionary exactly when each of home, draw and away has a
  numerically valid price among the \<^verbatim>\<open>h2h\<close> outcomes of the event. In per-bookmaker mode
  a market yields a row exactly when it is an \<^verbatim>\<open>h2h\<close> market in which each of the three
  classifications has an outcome with a valid price, and every row the extractor returns
  is the row of such a market of the event.
\<close>

theorem record_needs_three_classifications:
  "(extract_three_way_odds pf ev = Inr res \<longrightarrow>
      (res \<noteq> None) = (\<forall>k. class_prices pf ev k \<noteq> []))
   \<and> (market_row pf ev bm mk = Inr mres \<longrightarrow>
      (mres \<noteq> None) = (m_key mk = Some ''h2h'' \<and> (\<forall>k. market_outcomes pf ev k mk \<noteq> [])))
   \<and> (extract_bookmaker_odds pf ev = Inr rows \<longrightarrow> r \<in> set rows \<longrightarrow>
      (\<exists>b m. (b, m) \<in> set (market_pairs ev) \<and> market_row pf ev b m = Inr (Some r)
             \<and> m_key m = Some ''h2h'' \<and> (\<forall>k. market_outcomes pf ev k m \<noteq> [])))"
proof (intro conjI impI)
  assume "extract_three_way_odds pf ev = Inr res"
  then show "(res \<noteq> None) = (\<forall>k. class_prices pf ev k \<noteq> [])"
    by (rule extract_three_way_odds_result(1))
next
  assume "market_row pf ev bm mk = Inr mres"
  then show "(mres \<noteq> None) = (m_key mk = Some ''h2h'' \<and> (\<forall>k. market_outcomes pf ev k mk \<noteq> []))"
    by (rule market_row_result(1))
next
  assume e: "extract_bookmaker_odds pf ev = Inr rows" and r: "r \<in> set rows"
  from extract_bookmaker_odds_rows [OF e] r
  obtain b m where p: "(b, m) \<in> set (market_pairs ev)"
    and mr: "market_row pf ev b m = Inr (Some r)"
    using rows_of_member [of r pf ev "market_pairs ev"] by auto
  from market_row_result(1) [OF mr]
  have "m_key m = Some ''h2h'' \<and> (\<forall>k. market_outcomes pf ev k m \<noteq> [])" by simp
  with p mr
  show "\<exists>b m. (b, m) \<in> set (market_pairs ev) \<and> market_row pf ev b m = Inr (Some r)
             \<and> m_key m = Some ''h2h'' \<and> (\<forall>k. market_outcomes pf ev k m \<noteq> [])"
    by blast
qed

theorem record_needs_three_classifications_witness:
  "extract_three_way_odds float_of_string no_draw = Inr None
   \<and> class_prices float_of_string no_draw Draw = []
   \<and> market_row float_of_string (a_match []) (a_bookmaker ''alpha'' []) home_twice
       = Inr (Some (alpha_row 2 (17 / 5) 3 (Some ''second'')))
   \<and> market_outcomes float_of_string (a_match []) Draw home_twice \<noteq> []
   \<and> extract_bookmaker_odds float_of_string two_h2h_markets
       = Inr [alpha_row (5 / 2) (17 / 5) 3 None, alpha_row (13 / 5) (33 / 10) (29 / 10) None]
   \<and> (\<exists>b m. (b, m) \<in> set (market_pairs two_h2h_markets)
       \<and> market_row float_of_string two_h2h_markets b m
           = Inr (Some (alpha_row (5 / 2) (17 / 5) 3 None)))"
proof -
  have "(None \<noteq> (None :: odds_dict option))
          = (\<forall>k. class_prices float_of_string no_draw k \<noteq> [])"
    by (rule record_needs_three_classifications
          [THEN conjunct1, rule_format, OF no_draw_three_way])
  have "(Some (alpha_row 2 (17 / 5) 3 (Some ''second'')) \<noteq> None)
          = (m_key home_twice = Some ''h2h''
             \<and> (\<forall>k. market_outcomes float_of_string (a_match []) k home_twice \<noteq> []))"
    by (rule record_needs_three_classifications
          [THEN conjunct2, THEN conjunct1, rule_format, OF home_twice_row])
  then have b: "market_outcomes float_of_string (a_match []) Draw home_twice \<noteq> []"
    by simp
  have "\<exists>b m. (b, m) \<in> set (market_pairs two_h2h_markets)
       \<and> market_row float_of_string two_h2h_markets b m
           = Inr (Some (alpha_row (5 / 2) (17 / 5) 3 None))
       \<and> m_key m = Some ''h2h''
       \<and> (\<forall>k. market_outcomes float_of_string two_h2h_markets k m \<noteq> [])"
    by (rule record_needs_three_classifications
          [THEN conjunct2, THEN conjunct2, rule_format, OF two_h2h_markets_rows]) simp
  then have c: "\<exists>b m. (b, m) \<in> set (market_pairs two_h2h_markets)
       \<and> market_row float_of_string two_h2h_markets b m
           = Inr (Some (alpha_row (5 / 2) (17 / 5) 3 None))"
    by blast
  from no_draw_three_way no_draw_prices home_twice_row b two_h2h_markets_rows c
  show ?thesis by blast
qed

text \<open>
  C9. In per-bookmaker mode the extractor appends one row for each complete \<^verbatim>\<open>h2h\<close>
  market: a bookmaker whose answer holds two complete \<^verbatim>\<open>h2h\<close> markets gets two rows for
  the same event, where the claim and the docstrings promise one row per event and
  bookmaker.
\<close>

theorem two_rows_for_one_bookmaker:
  "extract_bookmaker_odds float_of_string two_h2h_markets
     = Inr [alpha_row (5 / 2) (17 / 5) 3 None, alpha_row (13 / 5) (33 / 10) (29 / 10) None]
   \<and> bookmaker (alpha_row (5 / 2) (17 / 5) 3 None)
       = bookmaker (alpha_row (13 / 5) (33 / 10) (29 / 10) None)
   \<and> event_id (alpha_row (5 / 2) (17 / 5) 3 None)
       = event_id (alpha_row (13 / 5) (33 / 10) (29 / 10) None)"
  by (simp add: two_h2h_markets_rows) (simp add: alpha_row_def book_row_def)

text \<open>
  C10, as the claim states it, fails: the last outcome of a market that classifies to a
  key is skipped when \<^verbatim>\<open>float\<close> rejects its price, and the row then keeps the price and
  the link of an earlier outcome. In the sample market the home team is listed at 5 with
  the link \<^verbatim>\<open>first\<close> and then at \<^verbatim>\<open>"N/A"\<close> with the link \<^verbatim>\<open>second\<close>; the row holds 5 and
  \<^verbatim>\<open>first\<close>.
\<close>

theorem last_outcome_with_bad_price_loses:
  "market_row float_of_string (a_match []) (a_bookmaker ''alpha'' []) home_last_invalid
     = Inr (Some (alpha_row 5 (17 / 5) 3 (Some ''first'')))
   \<and> last (classified_outcomes (a_match []) Home home_last_invalid)
       = a_linked_outcome ''Lyon'' (JStr ''N/A'') ''second''
   \<and> py_float float_of_string
       (o_price (last (classified_outcomes (a_match []) Home home_last_invalid)))
       = Inl ValueError
   \<and> home_odds (alpha_row 5 (17 / 5) 3 (Some ''first'')) = Finite 5
   \<and> home_link (alpha_row 5 (17 / 5) 3 (Some ''first'')) = Some ''first''
   \<and> deep_link (a_match []) (a_bookmaker ''alpha'' []) home_last_invalid
       (last (classified_outcomes (a_match []) Home home_last_invalid)) = Some ''second''"
  by (simp add: home_last_invalid_row home_last_invalid_home)
     (simp add: sample_defs row_defs extractor_defs)

text \<open>
  C10, amended. In per-bookmaker mode the row of a market carries, for each
  classification, the price and the deep link of the last outcome of the market that
  classifies to it and whose price \<^verbatim>\<open>float\<close> accepts: later such outcomes overwrite
  earlier ones, whatever their prices.
\<close>

theorem last_outcome_wins:
  assumes "market_row pf ev bm mk = Inr (Some r)"
  shows "market_outcomes pf ev Home mk \<noteq> []
       \<and> market_outcomes pf ev Draw mk \<noteq> []
       \<and> market_outcomes pf ev Away mk \<noteq> []
       \<and> py_float pf (o_price (last (market_outcomes pf ev Home mk))) = Inr (home_odds r)
       \<and> py_float pf (o_price (last (market_outcomes pf ev Draw mk))) = Inr (draw_odds r)
       \<and> py_float pf (o_price (last (market_outcomes pf ev Away mk))) = Inr (away_odds r)
       \<and> home_link r = deep_link ev bm mk (last (market_outcomes pf ev Home mk))
       \<and> draw_link r = deep_link ev bm mk (last (market_outcomes pf ev Draw mk))
       \<and> away_link r = deep_link ev bm mk (last (market_outcomes pf ev Away mk))"
proof -
  have ne: "market_outcomes pf ev k mk \<noteq> []" for k
    using market_row_result(1) [OF assms] by simp
  from market_row_result(2) [OF assms, of r] market_outcomes_last_price(1) [OF ne] ne
  show ?thesis by simp
qed

theorem last_outcome_wins_witness:
  "market_row float_of_string (a_match []) (a_bookmaker ''alpha'' []) home_twice
     = Inr (Some (alpha_row 2 (17 / 5) 3 (Some ''second'')))
   \<and> market_outcomes float_of_string (a_match []) Home home_twice
     = [a_linked_outcome ''Lyon'' (JInt 5) ''first'', a_linked_outcome ''Lyon'' (JInt 2) ''second'']
   \<and> py_float float_of_string
       (o_price (last (market_outcomes float_of_string (a_match []) Home home_twice)))
     = Inr (home_odds (alpha_row 2 (17 / 5) 3 (Some ''second'')))
   \<and> home_link (alpha_row 2 (17 / 5) 3 (Some ''second''))
     = deep_link (a_match []) (a_bookmaker ''alpha'' []) home_twice
         (last (market_outcomes float_of_string (a_match []) Home home_twice))"
proof -
  note t = last_outcome_wins [OF home_twice_row]
  from t have "py_float float_of_string
       (o_price (last (market_outcomes float_of_string (a_match []) Home home_twice)))
     = Inr (home_odds (alpha_row 2 (17 / 5) 3 (Some ''second'')))"
    by blast
  moreover from t have "home_link (alpha_row 2 (17 / 5) 3 (Some ''second''))
     = deep_link (a_match []) (a_bookmaker ''alpha'' []) home_twice
         (last (market_outcomes float_of_string (a_match []) Home home_twice))"
    by blast
  ultimately show ?thesis using home_twice_row home_twice_home by blast
qed

section \<open>Draw synonyms and deep links\<close>

lemma classify_draw:
  "(classify syn h a name = Some Draw) = (py_lower name \<in> set syn)"
  by (simp add: classify_def)

text \<open>
  C8. In both extractors a name classifies as a draw exactly when its lower-case form
  is in the synonym set of the script: \<^verbatim>\<open>draw\<close>, \<^verbatim>\<open>tie\<close> and \<^verbatim>\<open>egalit\<close> followed by
  U+00E9 in per-bookmaker mode, and these with \<^verbatim>\<open>espn\<close> in aggregate mode. The names
  \<^verbatim>\<open>Draw\<close>, \<^verbatim>\<open>DRAW\<close> and \<^verbatim>\<open>tie\<close> are draws in both modes, whatever the teams are.
\<close>

theorem draw_is_lowercase_membership:
  "(classify draw_names_bookmaker h a name = Some Draw)
     = (py_lower name \<in> {''draw'', ''tie'', egalite})
   \<and> (classify draw_names_three_way h a name = Some Draw)
     = (py_lower name \<in> {''draw'', ''tie'', egalite, ''espn''})
   \<and> classify draw_names_bookmaker h a ''Draw'' = Some Draw
   \<and> classify draw_names_bookmaker h a ''DRAW'' = Some Draw
   \<and> classify draw_names_bookmaker h a ''tie'' = Some Draw
   \<and> classify draw_names_three_way h a ''Draw'' = Some Draw
   \<and> classify draw_names_three_way h a ''DRAW'' = Some Draw
   \<and> classify draw_names_three_way h a ''tie'' = Some Draw"
  by (simp add: classify_draw py_lower_samples draw_names_bookmaker_def
        draw_names_three_way_def insert_commute)

text \<open>\<^verbatim>\<open>_deep_link\<close> returns the first link that is present and not empty, when there is one.\<close>

lemma deep_link_first:
  "truthy (o_link oc) \<Longrightarrow> deep_link ev bm mk oc = o_link oc"
  "\<not> truthy (o_link oc) \<Longrightarrow> truthy (m_link mk) \<Longrightarrow> deep_link ev bm mk oc = m_link mk"
  "\<not> truthy (o_link oc) \<Longrightarrow> \<not> truthy (m_link mk) \<Longrightarrow> truthy (b_link bm) \<Longrightarrow>
     deep_link ev bm mk oc = b_link bm"
  "\<not> truthy (o_link oc) \<Longrightarrow> \<not> truthy (m_link mk) \<Longrightarrow> \<not> truthy (b_link bm) \<Longrightarrow>
     deep_link ev bm mk oc = e_link ev"
  by (simp_all add: deep_link_def py_or_def)

lemmas link_defs = linked_event_def linked_bookmaker_def linked_market_def linked_outcome_def
  deep_link_def py_or_def truthy_def

lemma deep_link_samples:
  "deep_link (linked_event (Some ''E'')) (linked_bookmaker (Some ''B''))
     (linked_market (Some ''M'')) (linked_outcome None) = Some ''M''"
  "deep_link (linked_event (Some ''E'')) (linked_bookmaker (Some ''B''))
     (linked_market None) (linked_outcome None) = Some ''B''"
  "deep_link (linked_event None) (linked_bookmaker None)
     (linked_market None) (linked_outcome None) = None"
  by (simp_all add: link_defs)

text \<open>
  C5. When no link is present and not empty, \<^verbatim>\<open>_deep_link\<close> returns the event link as it
  is: \<^verbatim>\<open>a or b or c or d\<close> is \<open>d\<close> when the first three are falsy. With an event link that
  is the empty string, and the other three absent or empty, the result is the empty
  string, where the claim and the docstring (\<^verbatim>\<open>The first non-empty link encountered or None\<close>)
  say none.
\<close>

theorem empty_event_link_is_returned:
  "deep_link (linked_event (Some '''')) (linked_bookmaker None)
     (linked_market None) (linked_outcome None) = Some ''''
   \<and> deep_link (linked_event (Some '''')) (linked_bookmaker (Some ''''))
     (linked_market (Some '''')) (linked_outcome (Some '''')) = Some ''''"
  by (simp add: link_defs)

section \<open>Prices that \<^verbatim>\<open>float\<close> does not convert\<close>

text \<open>
  A price on which \<^verbatim>\<open>float\<close> raises TypeError or ValueError (null, a list, an object, a
  string that is not a number) leaves both loops as they would be without the outcome,
  when the name of the outcome is a string.
\<close>

lemma rejected_price_is_skipped:
  assumes "outcome_name oc = Inr name"
    and "py_float pf (o_price oc) = Inl e" and "e = TypeError \<or> e = ValueError"
  shows "three_way_outcomes pf h a (oc # ocs) best = three_way_outcomes pf h a ocs best"
    and "bookmaker_outcomes pf ev bm mk (oc # ocs) maps = bookmaker_outcomes pf ev bm mk ocs maps"
  using assms by (cases maps; auto split: option.splits)+

lemma py_float_rejects:
  "py_float pf JNull = Inl TypeError"
  "pf s = None \<Longrightarrow> py_float pf (JStr s) = Inl ValueError"
  by (simp_all add: py_float_def)

lemma huge_price_three_way:
  "extract_three_way_odds float_of_string huge_price = Inl OverflowError"
  by (simp add: sample_defs extract_three_way_odds_def classify_def outcome_name_def
        draw_names_three_way_def egalite_def py_lower_samples py_float_too_big keep_best_def
        py_float_def [of _ "JFloat _"])

lemma huge_price_bookmaker:
  "extract_bookmaker_odds float_of_string huge_price = Inl OverflowError"
  by (simp add: sample_defs row_defs classify_def outcome_name_def
        draw_names_bookmaker_def egalite_def py_lower_samples py_float_too_big
        py_float_def [of _ "JFloat _"])

text \<open>
  C7. A price that is an integer of \<open>2 ^ 1024\<close> or more fails numeric conversion with
  OverflowError, which \<^verbatim>\<open>except (TypeError, ValueError)\<close> does not catch: the outcome is
  not discarded, and both extractors raise on an event that holds it.
\<close>

theorem overflowing_price_raises:
  "py_float float_of_string (JInt too_big) = Inl OverflowError
   \<and> extract_three_way_odds float_of_string huge_price = Inl OverflowError
   \<and> extract_bookmaker_odds float_of_string huge_price = Inl OverflowError"
  using py_float_too_big huge_price_three_way huge_price_bookmaker by blast

section \<open>Ranking\<close>

lemma flt_irrefl: "\<not> flt a a"
  by (cases a) simp_all

lemma flt_fle: "flt a b \<Longrightarrow> fle a b"
  by (cases a; cases b; simp add: fle_def)

lemma fle_trans: "fle a b \<Longrightarrow> fle b c \<Longrightarrow> fle a c"
  by (cases a; cases b; cases c; simp add: fle_def)

lemma set_insert_desc: "set (insert_desc f x ys) = insert x (set ys)"
  by (induction ys) auto

lemma mset_insert_desc: "mset (insert_desc f x ys) = add_mset x (mset ys)"
  by (induction ys) auto

lemma sort_reverse_Cons: "sort_reverse f (x # xs) = insert_desc f x (sort_reverse f xs)"
  by (simp add: sort_reverse_def)

lemma mset_sort_reverse: "mset (sort_reverse f xs) = mset xs"
  by (induction xs) (simp_all add: sort_reverse_def mset_insert_desc)

lemma set_sort_reverse: "set (sort_reverse f xs) = set xs"
  using mset_sort_reverse [of f xs] by (metis set_mset_mset)

text \<open>Without NaN keys the sort puts the keys in non-increasing order.\<close>

lemma sorted_insert_desc:
  assumes "f x \<noteq> NaN" and "NaN \<notin> f ` set ys"
    and "sorted_wrt (\<lambda>a b. fle (f b) (f a)) ys"
  shows "sorted_wrt (\<lambda>a b. fle (f b) (f a)) (insert_desc f x ys)"
  using assms
proof (induction ys)
  case Nil
  then show ?case by simp
next
  case (Cons y ys)
  show ?case
  proof (cases "flt (f x) (f y)")
    case True
    have "sorted_wrt (\<lambda>a b. fle (f b) (f a)) (insert_desc f x ys)"
      using Cons by simp
    moreover have "fle (f x) (f y)" using True by (rule flt_fle)
    moreover have "\<forall>z \<in> set ys. fle (f z) (f y)" using Cons.prems(3) by simp
    ultimately show ?thesis using True by (simp add: set_insert_desc)
  next
    case False
    have y: "fle (f y) (f x)"
      using False Cons.prems(1,2) by (auto simp: fle_def)
    have "fle (f z) (f x)" if "z \<in> set ys" for z
    proof -
      have "fle (f z) (f y)" using that Cons.prems(3) by simp
      then show ?thesis using y by (rule fle_trans)
    qed
    then show ?thesis using False y Cons.prems(3) by simp
  qed
qed

lemma sorted_sort_reverse:
  "NaN \<notin> f ` set xs \<Longrightarrow> sorted_wrt (\<lambda>a b. fle (f b) (f a)) (sort_reverse f xs)"
proof (induction xs)
  case Nil
  then show ?case by (simp add: sort_reverse_def)
next
  case (Cons x xs)
  have "sorted_wrt (\<lambda>a b. fle (f b) (f a)) (insert_desc f x (sort_reverse f xs))"
  proof (rule sorted_insert_desc)
    show "f x \<noteq> NaN" using Cons.prems by auto
    show "NaN \<notin> f ` set (sort_reverse f xs)" using Cons.prems by (simp add: set_sort_reverse)
    show "sorted_wrt (\<lambda>a b. fle (f b) (f a)) (sort_reverse f xs)" using Cons by simp
  qed
  then show ?case by (simp add: sort_reverse_Cons)
qed

text \<open>An element is inserted before every element with the same key: the sort is stable.\<close>

lemma filter_insert_desc:
  "filter (\<lambda>z. f z = p) (insert_desc f x ys) = filter (\<lambda>z. f z = p) (x # ys)"
proof (induction ys)
  case Nil
  then show ?case by simp
next
  case (Cons y ys)
  show ?case
  proof (cases "flt (f x) (f y)")
    case True
    then have "f x \<noteq> f y" using flt_irrefl [of "f y"] by auto
    with True Cons show ?thesis by auto
  next
    case False
    then show ?thesis by simp
  qed
qed

lemma stable_sort_reverse: "stable_on f xs (sort_reverse f xs)"
  unfolding stable_on_def
proof
  fix p
  show "filter (\<lambda>x. f x = p) (sort_reverse f xs) = filter (\<lambda>x. f x = p) xs"
    by (induction xs) (simp_all add: sort_reverse_Cons filter_insert_desc, simp add: sort_reverse_def)
qed

text \<open>Sorting the reversed frame meets what the library promises of \<^verbatim>\<open>sort_values\<close>.\<close>

lemma sorts_descending_ties_reversed: "sorts_descending ties_reversed"
  unfolding sorts_descending_def ties_reversed_def
proof (intro allI conjI impI)
  fix rows :: "row list"
  show "mset (sort_reverse the_product (rev rows)) = mset rows"
    by (simp add: mset_sort_reverse)
  assume "NaN \<notin> the_product ` set rows"
  then have "NaN \<notin> the_product ` set (rev rows)" by simp
  then show "sorted_wrt (\<lambda>a b. fle (the_product b) (the_product a))
               (sort_reverse the_product (rev rows))"
    by (rule sorted_sort_reverse)
qed

section \<open>The loops over sport keys, events and rows\<close>

lemma fetch_odds_not_found: "fetch_odds (Response 404 body) = Inr []"
  by (simp add: fetch_odds_def)

lemma first_events_Nil: "first_events mx [] = []"
  by (simp add: first_events_def split: option.splits)

text \<open>A run over a list of keys is the run over its beginning followed by the run over its end.\<close>

lemma high_odds_sports_append:
  "high_odds_sports pf fsub fmul target tol mx (xs @ ys) results out =
     (case high_odds_sports pf fsub fmul target tol mx xs results out of
        (out', Inl x) \<Rightarrow> (out', Inl x)
      | (out', Inr results') \<Rightarrow> high_odds_sports pf fsub fmul target tol mx ys results' out')"
proof (induction xs arbitrary: results out)
  case Nil
  then show ?case by simp
next
  case (Cons kr xs)
  obtain skey resp where kr: "kr = (skey, resp)" by (cases kr)
  show ?case unfolding kr using Cons.IH by (simp split: sum.splits)
qed

lemma target_sports_append:
  "target_sports pf fsub fmul target tol (xs @ ys) records out =
     (case target_sports pf fsub fmul target tol xs records out of
        (out', Inl x) \<Rightarrow> (out', Inl x)
      | (out', Inr records') \<Rightarrow> target_sports pf fsub fmul target tol ys records' out')"
proof (induction xs arbitrary: records out)
  case Nil
  then show ?case by simp
next
  case (Cons kr xs)
  obtain skey resp where kr: "kr = (skey, resp)" by (cases kr)
  show ?case unfolding kr using Cons.IH by (simp split: sum.splits)
qed

text \<open>Per-bookmaker mode: the records are the extracted rows that pass, with their product.\<close>

lemma target_rows_filter:
  "target_rows fsub fmul target tol recs records
     = records @ map (with_product fmul) (filter (row_near fsub target tol) recs)"
  by (induction recs arbitrary: records)
     (simp_all add: row_near_def near_def with_product_def)

lemma target_events_filter:
  "target_events pf fsub fmul target tol evs records = Inr records' \<Longrightarrow>
   records' = records @ map (with_product fmul)
                          (filter (row_near fsub target tol) (extracted_rows pf evs))"
proof (induction evs arbitrary: records)
  case Nil
  then show ?case by (simp add: extracted_rows_def)
next
  case (Cons ev evs)
  from Cons.prems obtain recs where
    e: "extract_bookmaker_odds pf ev = Inr recs"
    and t: "target_events pf fsub fmul target tol evs
              (target_rows fsub fmul target tol recs records) = Inr records'"
    by (auto split: sum.splits)
  from Cons.IH [OF t] e show ?case
    by (simp add: target_rows_filter extracted_rows_def)
qed

lemma target_sports_filter:
  "target_sports pf fsub fmul target tol sport_keys records out = (out', Inr records') \<Longrightarrow>
   records' = records @ map (with_product fmul)
                          (filter (row_near fsub target tol)
                             (extracted_rows pf (fetched_events sport_keys)))"
proof (induction sport_keys arbitrary: records out)
  case Nil
  then show ?case by (simp add: extracted_rows_def fetched_events_def)
next
  case (Cons kr sport_keys)
  obtain skey resp where kr: "kr = (skey, resp)" by (cases kr)
  show ?case
  proof (cases "fetch_odds resp")
    case (Inl e)
    with Cons.prems kr have
      "target_sports pf fsub fmul target tol sport_keys records (out @ [Error_fetching skey e])
         = (out', Inr records')"
      by simp
    from Cons.IH [OF this] Inl kr show ?thesis
      by (simp add: fetched_events_def)
  next
    case (Inr events)
    with Cons.prems kr obtain mid where
      m: "target_events pf fsub fmul target tol events records = Inr mid"
      and r: "target_sports pf fsub fmul target tol sport_keys mid out = (out', Inr records')"
      by (auto split: sum.splits)
    from target_events_filter [OF m] Cons.IH [OF r] Inr kr show ?thesis
      by (simp add: fetched_events_def extracted_rows_def)
  qed
qed

lemma row_near_with_product:
  "row_near fsub target tol (with_product fmul rec) = row_near fsub target tol rec"
  by (simp add: row_near_def with_product_def)

lemma the_product_with_product:
  "the_product (with_product fmul rec)
     = fmul (fmul (home_odds rec) (draw_odds rec)) (away_odds rec)"
  by (simp add: the_product_def with_product_def)

text \<open>Aggregate mode: a dictionary of three prices passes when each price is near the target.\<close>

lemma all_okey: "(\<forall>k. P k) = (P Home \<and> P Draw \<and> P Away)"
  by (metis okey.exhaust)

lemma high_odds_event_filter:
  assumes "extract_three_way_odds pf ev = Inr (Some odds)"
  shows "\<exists>h d a. map_of odds Home = Some h \<and> map_of odds Draw = Some d
           \<and> map_of odds Away = Some a
           \<and> high_odds_event pf fsub fmul target tol ev results =
               Inr (if near fsub target tol h \<and> near fsub target tol d
                       \<and> near fsub target tol a
                    then results @
                      [\<lparr>r_event_id = e_id ev, r_sport_key = e_sport_key ev,
                        r_commence_time = e_commence_time ev, r_home_team = e_home_team ev,
                        r_away_team = e_away_team ev, best_odds = odds,
                        r_combined_product = fmul (fmul h d) a\<rparr>]
                    else results)"
proof -
  have dl: "distinct (map fst odds)" "length odds = 3"
    using extract_three_way_odds_result(2) [OF assms] by simp_all
  then have all: "map_of odds k \<noteq> None" for k
    using dict_len_3 [OF dl(1)] by simp
  obtain h d a where hda: "map_of odds Home = Some h" "map_of odds Draw = Some d"
    "map_of odds Away = Some a"
    using all [of Home] all [of Draw] all [of Away] by auto
  have keys: "set (map fst odds) = UNIV"
    using all by (auto simp: map_of_eq_None_iff)
  have "all_near fsub target tol odds =
          (\<forall>k. case map_of odds k of None \<Rightarrow> False
                | Some v \<Rightarrow> fle (fabs (fsub v target)) tol)"
    unfolding all_near_def list_all_iff keys by simp
  also have "\<dots> = (near fsub target tol h \<and> near fsub target tol d \<and> near fsub target tol a)"
    using hda by (simp add: all_okey near_def)
  finally have n: "all_near fsub target tol odds =
      (near fsub target tol h \<and> near fsub target tol d \<and> near fsub target tol a)" .
  have ne: "odds \<noteq> []" using dl(2) by auto
  show ?thesis
    using assms hda n ne by (auto simp: high_odds_event_def)
qed

lemma high_odds_event_near:
  assumes "high_odds_event pf fsub fmul target tol ev results = Inr results'"
    and "\<forall>r \<in> set results. result_near fsub target tol r"
  shows "\<forall>r \<in> set results'. result_near fsub target tol r"
proof (cases "extract_three_way_odds pf ev")
  case (Inl e)
  with assms show ?thesis by (simp add: high_odds_event_def)
next
  case (Inr res)
  show ?thesis
  proof (cases res)
    case None
    with Inr assms show ?thesis by (simp add: high_odds_event_def)
  next
    case (Some odds)
    from high_odds_event_filter [of pf ev odds fsub fmul target tol results] Inr Some
    obtain h d a where "map_of odds Home = Some h" "map_of odds Draw = Some d"
      "map_of odds Away = Some a"
      and "high_odds_event pf fsub fmul target tol ev results =
               Inr (if near fsub target tol h \<and> near fsub target tol d
                       \<and> near fsub target tol a
                    then results @
                      [\<lparr>r_event_id = e_id ev, r_sport_key = e_sport_key ev,
                        r_commence_time = e_commence_time ev, r_home_team = e_home_team ev,
                        r_away_team = e_away_team ev, best_odds = odds,
                        r_combined_product = fmul (fmul h d) a\<rparr>]
                    else results)"
      by auto
    with assms show ?thesis
      by (auto simp: result_near_def split: if_splits)
  qed
qed

lemma high_odds_events_near:
  "high_odds_events pf fsub fmul target tol evs results = Inr results' \<Longrightarrow>
   \<forall>r \<in> set results. result_near fsub target tol r \<Longrightarrow>
   \<forall>r \<in> set results'. result_near fsub target tol r"
proof (induction evs arbitrary: results)
  case Nil
  then show ?case by simp
next
  case (Cons ev evs)
  from Cons.prems(1) obtain mid where
    m: "high_odds_event pf fsub fmul target tol ev results = Inr mid"
    and r: "high_odds_events pf fsub fmul target tol evs mid = Inr results'"
    by (auto split: sum.splits)
  from high_odds_event_near [OF m Cons.prems(2)] Cons.IH [OF r] show ?case by blast
qed

lemma high_odds_sports_near:
  "high_odds_sports pf fsub fmul target tol mx sport_keys results out = (out', Inr results') \<Longrightarrow>
   \<forall>r \<in> set results. result_near fsub target tol r \<Longrightarrow>
   \<forall>r \<in> set results'. result_near fsub target tol r"
proof (induction sport_keys arbitrary: results out)
  case Nil
  then show ?case by simp
next
  case (Cons kr sport_keys)
  obtain skey resp where kr: "kr = (skey, resp)" by (cases kr)
  show ?case
  proof (cases "fetch_odds resp")
    case (Inl e)
    with Cons.prems(1) kr have
      "high_odds_sports pf fsub fmul target tol mx sport_keys results
         (out @ [Skipping_sport skey e]) = (out', Inr results')"
      by simp
    from Cons.IH [OF this Cons.prems(2)] show ?thesis .
  next
    case (Inr events)
    with Cons.prems(1) kr obtain mid where
      m: "high_odds_events pf fsub fmul target tol (first_events mx events) results = Inr mid"
      and r: "high_odds_sports pf fsub fmul target tol mx sport_keys mid out
                = (out', Inr results')"
      by (auto split: sum.splits)
    from high_odds_events_near [OF m Cons.prems(2)] Cons.IH [OF r] show ?thesis by blast
  qed
qed

section \<open>A sample run\<close>

lemmas run_defs = fetch_odds_def first_events_def high_odds_event_def all_near_def fle_def
  keep_best_def extract_three_way_odds_def

lemma three_books_rows:
  "extract_bookmaker_odds float_of_string three_books
     = Inr [book_row ''gamma'' (5 / 2) (17 / 5) 3 None, book_row ''delta'' 2 (17 / 5) 3 None,
            book_row ''epsilon'' (5 / 2) (17 / 5) 3 None]"
  by (simp add: sample_defs row_defs extractor_defs py_lower_samples)

lemma two_books_rows:
  "extract_bookmaker_odds float_of_string two_books
     = Inr [book_row ''alpha'' (5 / 2) (17 / 5) 3 None,
            book_row ''beta'' (13 / 5) (33 / 10) (29 / 10) None]"
  by (simp add: sample_defs row_defs extractor_defs py_lower_samples)

lemma book_row_fields:
  "home_odds (book_row b h d a l) = Finite h"
  "draw_odds (book_row b h d a l) = Finite d"
  "away_odds (book_row b h d a l) = Finite a"
  by (simp_all add: book_row_def)

lemma a_run_records:
  "target_sports float_of_string sample_sub sample_mul (Finite 3) (Finite (3 / 5)) a_run [] []
     = ([Error_fetching ''soccer_down'' ConnectionFailure],
        Inr [ranked_row ''gamma'' (5 / 2) (17 / 5) 3 (51 / 2),
             ranked_row ''epsilon'' (5 / 2) (17 / 5) 3 (51 / 2),
             ranked_row ''alpha'' (5 / 2) (17 / 5) 3 (51 / 2),
             ranked_row ''beta'' (13 / 5) (33 / 10) (29 / 10) (12441 / 500)])"
  by (simp add: a_run_def fetch_odds_def three_books_rows two_books_rows book_row_fields
        ranked_row_def fle_def)

lemma a_run_ranked:
  "find_events_with_target_odds ties_reversed float_of_string sample_sub sample_mul a_run
       (Finite 3) (Finite (3 / 5))
     = ([Error_fetching ''soccer_down'' ConnectionFailure],
        Inr [ranked_row ''alpha'' (5 / 2) (17 / 5) 3 (51 / 2),
             ranked_row ''epsilon'' (5 / 2) (17 / 5) 3 (51 / 2),
             ranked_row ''gamma'' (5 / 2) (17 / 5) 3 (51 / 2),
             ranked_row ''beta'' (13 / 5) (33 / 10) (29 / 10) (12441 / 500)])"
  by (simp add: find_events_with_target_odds_def a_run_records)
     (simp add: ties_reversed_def sort_reverse_def the_product_def ranked_row_def book_row_def)

lemma three_books_best:
  "extract_three_way_odds float_of_string three_books
     = Inr (Some [(Home, Finite (5 / 2)), (Draw, Finite (17 / 5)), (Away, Finite 3)])"
  by (simp add: sample_defs extractor_defs py_lower_samples extract_three_way_odds_def
        keep_best_def)

lemma two_books_best:
  "extract_three_way_odds float_of_string two_books
     = Inr (Some [(Home, Finite (13 / 5)), (Draw, Finite (17 / 5)), (Away, Finite 3)])"
  by (simp add: sample_defs extractor_defs py_lower_samples extract_three_way_odds_def
        keep_best_def)

lemma a_run_results:
  "high_odds_sports float_of_string sample_sub sample_mul (Finite 3) (Finite (3 / 5)) (Some 10)
       a_run [] []
     = ([Skipping_sport ''soccer_down'' ConnectionFailure],
        Inr [best_record (5 / 2) (17 / 5) 3 (51 / 2),
             best_record (13 / 5) (17 / 5) 3 (663 / 25)])"
  by (simp add: a_run_def fetch_odds_def first_events_def high_odds_event_def
        three_books_best two_books_best all_near_def fle_def)
     (simp add: best_record_def a_match_def two_books_def three_books_def)

lemma a_run_best:
  "find_high_odds_events float_of_string sample_sub sample_mul a_run (Finite 3) (Finite (3 / 5))
       (Some 10)
     = ([Skipping_sport ''soccer_down'' ConnectionFailure],
        Inr [best_record (13 / 5) (17 / 5) 3 (663 / 25),
             best_record (5 / 2) (17 / 5) 3 (51 / 2)])"
  by (simp add: find_high_odds_events_def a_run_results)
     (simp add: sort_reverse_def best_record_def)

lemma a_run_split:
  "a_run = [(''soccer_epl'', Response 200 (Some [three_books])),
            (''soccer_off'', Response 404 None)]
           @ (''soccer_down'', No_response)
           # [(''soccer_liga'', Response 200 (Some [two_books]))]"
  by (simp add: a_run_def)

lemma a_run_before:
  "high_odds_sports float_of_string sample_sub sample_mul (Finite 3) (Finite (3 / 5)) (Some 10)
       [(''soccer_epl'', Response 200 (Some [three_books])),
        (''soccer_off'', Response 404 None)] [] []
     = ([], Inr [best_record (5 / 2) (17 / 5) 3 (51 / 2)])"
  "target_sports float_of_string sample_sub sample_mul (Finite 3) (Finite (3 / 5))
       [(''soccer_epl'', Response 200 (Some [three_books])),
        (''soccer_off'', Response 404 None)] [] []
     = ([], Inr [ranked_row ''gamma'' (5 / 2) (17 / 5) 3 (51 / 2),
                 ranked_row ''epsilon'' (5 / 2) (17 / 5) 3 (51 / 2)])"
proof -
  show "high_odds_sports float_of_string sample_sub sample_mul (Finite 3) (Finite (3 / 5))
       (Some 10)
       [(''soccer_epl'', Response 200 (Some [three_books])),
        (''soccer_off'', Response 404 None)] [] []
     = ([], Inr [best_record (5 / 2) (17 / 5) 3 (51 / 2)])"
    by (simp add: fetch_odds_def first_events_def high_odds_event_def
          three_books_best all_near_def fle_def)
       (simp add: best_record_def a_match_def three_books_def)
  show "target_sports float_of_string sample_sub sample_mul (Finite 3) (Finite (3 / 5))
       [(''soccer_epl'', Response 200 (Some [three_books])),
        (''soccer_off'', Response 404 None)] [] []
     = ([], Inr [ranked_row ''gamma'' (5 / 2) (17 / 5) 3 (51 / 2),
                 ranked_row ''epsilon'' (5 / 2) (17 / 5) 3 (51 / 2)])"
    by (simp add: fetch_odds_def three_books_rows book_row_fields ranked_row_def fle_def)
qed

section \<open>The claims on filtering, ranking and fetching\<close>

text \<open>
  C1. A record passes the filter exactly when each of its three prices \<open>x\<close> satisfies
  \<^verbatim>\<open>abs(x - target) <= tol\<close>, the difference and the comparison being those of floats.
  Per-bookmaker mode: the loop over the extracted rows appends the rows that pass, in
  order, with their product, and nothing else; the records of a run are the extracted
  rows of the fetched events that pass; the frame holds these records and every row of
  it passes. Aggregate mode: the dictionary of an event has the three prices, its record
  is appended exactly when the three pass, and every record of the output passes.
\<close>

theorem filter_keeps_near_records:
  "target_rows fsub fmul target tol recs records
     = records @ map (with_product fmul) (filter (row_near fsub target tol) recs)
   \<and> (target_sports pf fsub fmul target tol sport_keys [] [] = (out, Inr records') \<longrightarrow>
        records' = map (with_product fmul)
                     (filter (row_near fsub target tol)
                        (extracted_rows pf (fetched_events sport_keys))))
   \<and> (sorts_descending sort_values \<longrightarrow>
        find_events_with_target_odds sort_values pf fsub fmul sport_keys target tol
          = (out1, Inr rows) \<longrightarrow>
        mset rows = mset (map (with_product fmul)
                            (filter (row_near fsub target tol)
                               (extracted_rows pf (fetched_events sport_keys))))
        \<and> (\<forall>r \<in> set rows. row_near fsub target tol r))
   \<and> (extract_three_way_odds pf ev = Inr (Some odds) \<longrightarrow>
        (\<exists>h d a. map_of odds Home = Some h \<and> map_of odds Draw = Some d
           \<and> map_of odds Away = Some a
           \<and> high_odds_event pf fsub fmul target tol ev results =
               Inr (if near fsub target tol h \<and> near fsub target tol d
                       \<and> near fsub target tol a
                    then results @
                      [\<lparr>r_event_id = e_id ev, r_sport_key = e_sport_key ev,
                        r_commence_time = e_commence_time ev, r_home_team = e_home_team ev,
                        r_away_team = e_away_team ev, best_odds = odds,
                        r_combined_product = fmul (fmul h d) a\<rparr>]
                    else results)))
   \<and> (find_high_odds_events pf fsub fmul sport_keys target tol mx = (out2, Inr results') \<longrightarrow>
        (\<forall>r \<in> set results'. result_near fsub target tol r))"
proof (intro conjI impI)
  show "target_rows fsub fmul target tol recs records
     = records @ map (with_product fmul) (filter (row_near fsub target tol) recs)"
    by (rule target_rows_filter)
next
  assume "target_sports pf fsub fmul target tol sport_keys [] [] = (out, Inr records')"
  from target_sports_filter [OF this]
  show "records' = map (with_product fmul)
                     (filter (row_near fsub target tol)
                        (extracted_rows pf (fetched_events sport_keys)))"
    by simp
next
  assume s: "sorts_descending sort_values"
    and f: "find_events_with_target_odds sort_values pf fsub fmul sport_keys target tol
              = (out1, Inr rows)"
  from f obtain records' where
    t: "target_sports pf fsub fmul target tol sport_keys [] [] = (out1, Inr records')"
    and r: "rows = (if records' = [] then [] else sort_values records')"
    by (auto simp: find_events_with_target_odds_def split: prod.splits sum.splits)
  have m: "mset rows = mset records'"
    using r s by (simp add: sorts_descending_def)
  have e: "records' = map (with_product fmul)
                     (filter (row_near fsub target tol)
                        (extracted_rows pf (fetched_events sport_keys)))"
    using target_sports_filter [OF t] by simp
  show "mset rows = mset (map (with_product fmul)
                            (filter (row_near fsub target tol)
                               (extracted_rows pf (fetched_events sport_keys))))"
    using m e by simp
  have "set rows = set records'" using m by (rule mset_eq_setD)
  then show "\<forall>r \<in> set rows. row_near fsub target tol r"
    using e by (auto simp: row_near_with_product)
next
  assume "extract_three_way_odds pf ev = Inr (Some odds)"
  then show "\<exists>h d a. map_of odds Home = Some h \<and> map_of odds Draw = Some d
           \<and> map_of odds Away = Some a
           \<and> high_odds_event pf fsub fmul target tol ev results =
               Inr (if near fsub target tol h \<and> near fsub target tol d
                       \<and> near fsub target tol a
                    then results @
                      [\<lparr>r_event_id = e_id ev, r_sport_key = e_sport_key ev,
                        r_commence_time = e_commence_time ev, r_home_team = e_home_team ev,
                        r_away_team = e_away_team ev, best_odds = odds,
                        r_combined_product = fmul (fmul h d) a\<rparr>]
                    else results)"
    by (rule high_odds_event_filter)
next
  assume f: "find_high_odds_events pf fsub fmul sport_keys target tol mx = (out2, Inr results')"
  from f obtain results where
    h: "high_odds_sports pf fsub fmul target tol mx sport_keys [] [] = (out2, Inr results)"
    and r: "results' = sort_reverse r_combined_product results"
    by (auto simp: find_high_odds_events_def split: prod.splits sum.splits)
  have "\<forall>r \<in> set results. result_near fsub target tol r"
    by (rule high_odds_sports_near [OF h]) simp
  then show "\<forall>r \<in> set results'. result_near fsub target tol r"
    using r by (simp add: set_sort_reverse)
qed

theorem filter_keeps_near_records_witness:
  "find_events_with_target_odds ties_reversed float_of_string sample_sub sample_mul a_run
       (Finite 3) (Finite (3 / 5))
     = ([Error_fetching ''soccer_down'' ConnectionFailure],
        Inr [ranked_row ''alpha'' (5 / 2) (17 / 5) 3 (51 / 2),
             ranked_row ''epsilon'' (5 / 2) (17 / 5) 3 (51 / 2),
             ranked_row ''gamma'' (5 / 2) (17 / 5) 3 (51 / 2),
             ranked_row ''beta'' (13 / 5) (33 / 10) (29 / 10) (12441 / 500)])
   \<and> row_near sample_sub (Finite 3) (Finite (3 / 5))
       (ranked_row ''beta'' (13 / 5) (33 / 10) (29 / 10) (12441 / 500))
   \<and> extract_bookmaker_odds float_of_string three_books
     = Inr [book_row ''gamma'' (5 / 2) (17 / 5) 3 None, book_row ''delta'' 2 (17 / 5) 3 None,
            book_row ''epsilon'' (5 / 2) (17 / 5) 3 None]
   \<and> \<not> row_near sample_sub (Finite 3) (Finite (3 / 5)) (book_row ''delta'' 2 (17 / 5) 3 None)
   \<and> find_high_odds_events float_of_string sample_sub sample_mul a_run (Finite 3)
       (Finite (3 / 5)) (Some 10)
     = ([Skipping_sport ''soccer_down'' ConnectionFailure],
        Inr [best_record (13 / 5) (17 / 5) 3 (663 / 25),
             best_record (5 / 2) (17 / 5) 3 (51 / 2)])
   \<and> result_near sample_sub (Finite 3) (Finite (3 / 5))
       (best_record (13 / 5) (17 / 5) 3 (663 / 25))"
proof -
  have "mset [ranked_row ''alpha'' (5 / 2) (17 / 5) 3 (51 / 2),
             ranked_row ''epsilon'' (5 / 2) (17 / 5) 3 (51 / 2),
             ranked_row ''gamma'' (5 / 2) (17 / 5) 3 (51 / 2),
             ranked_row ''beta'' (13 / 5) (33 / 10) (29 / 10) (12441 / 500)]
          = mset (map (with_product sample_mul)
                    (filter (row_near sample_sub (Finite 3) (Finite (3 / 5)))
                       (extracted_rows float_of_string (fetched_events a_run))))
        \<and> (\<forall>r \<in> set [ranked_row ''alpha'' (5 / 2) (17 / 5) 3 (51 / 2),
             ranked_row ''epsilon'' (5 / 2) (17 / 5) 3 (51 / 2),
             ranked_row ''gamma'' (5 / 2) (17 / 5) 3 (51 / 2),
             ranked_row ''beta'' (13 / 5) (33 / 10) (29 / 10) (12441 / 500)].
              row_near sample_sub (Finite 3) (Finite (3 / 5)) r)"
    by (rule filter_keeps_near_records
          [THEN conjunct2, THEN conjunct2, THEN conjunct1, rule_format,
           OF sorts_descending_ties_reversed a_run_ranked])
  then have a: "row_near sample_sub (Finite 3) (Finite (3 / 5))
       (ranked_row ''beta'' (13 / 5) (33 / 10) (29 / 10) (12441 / 500))"
    by simp
  have b: "result_near sample_sub (Finite 3) (Finite (3 / 5))
       (best_record (13 / 5) (17 / 5) 3 (663 / 25))"
    by (rule filter_keeps_near_records
          [THEN conjunct2, THEN conjunct2, THEN conjunct2, THEN conjunct2, rule_format,
           OF a_run_best]) simp
  have c: "\<not> row_near sample_sub (Finite 3) (Finite (3 / 5))
             (book_row ''delta'' 2 (17 / 5) 3 None)"
    by (simp add: row_near_def near_def book_row_fields fle_def)
  from a_run_ranked a three_books_rows c a_run_best b show ?thesis by blast
qed

text \<open>
  C2, as the claim states it, fails in per-bookmaker mode: the frame is sorted by
  \<^verbatim>\<open>sort_values\<close> without \<^verbatim>\<open>kind\<close>, and the library does not promise that its default
  algorithm keeps rows with equal products in their order. With a sort that meets what
  the library promises, the rows of gamma, epsilon and alpha, which have the same
  product and were appended in this order, come out as alpha, epsilon, gamma.
\<close>

theorem ties_can_be_reordered:
  "sorts_descending ties_reversed
   \<and> target_sports float_of_string sample_sub sample_mul (Finite 3) (Finite (3 / 5)) a_run [] []
     = ([Error_fetching ''soccer_down'' ConnectionFailure],
        Inr [ranked_row ''gamma'' (5 / 2) (17 / 5) 3 (51 / 2),
             ranked_row ''epsilon'' (5 / 2) (17 / 5) 3 (51 / 2),
             ranked_row ''alpha'' (5 / 2) (17 / 5) 3 (51 / 2),
             ranked_row ''beta'' (13 / 5) (33 / 10) (29 / 10) (12441 / 500)])
   \<and> find_events_with_target_odds ties_reversed float_of_string sample_sub sample_mul a_run
       (Finite 3) (Finite (3 / 5))
     = ([Error_fetching ''soccer_down'' ConnectionFailure],
        Inr [ranked_row ''alpha'' (5 / 2) (17 / 5) 3 (51 / 2),
             ranked_row ''epsilon'' (5 / 2) (17 / 5) 3 (51 / 2),
             ranked_row ''gamma'' (5 / 2) (17 / 5) 3 (51 / 2),
             ranked_row ''beta'' (13 / 5) (33 / 10) (29 / 10) (12441 / 500)])
   \<and> the_product (ranked_row ''gamma'' (5 / 2) (17 / 5) 3 (51 / 2))
     = the_product (ranked_row ''alpha'' (5 / 2) (17 / 5) 3 (51 / 2))
   \<and> \<not> stable_on the_product
         [ranked_row ''gamma'' (5 / 2) (17 / 5) 3 (51 / 2),
          ranked_row ''epsilon'' (5 / 2) (17 / 5) 3 (51 / 2),
          ranked_row ''alpha'' (5 / 2) (17 / 5) 3 (51 / 2),
          ranked_row ''beta'' (13 / 5) (33 / 10) (29 / 10) (12441 / 500)]
         [ranked_row ''alpha'' (5 / 2) (17 / 5) 3 (51 / 2),
          ranked_row ''epsilon'' (5 / 2) (17 / 5) 3 (51 / 2),
          ranked_row ''gamma'' (5 / 2) (17 / 5) 3 (51 / 2),
          ranked_row ''beta'' (13 / 5) (33 / 10) (29 / 10) (12441 / 500)]"
proof -
  have p: "the_product (ranked_row ''gamma'' (5 / 2) (17 / 5) 3 (51 / 2))
     = the_product (ranked_row ''alpha'' (5 / 2) (17 / 5) 3 (51 / 2))"
    by (simp add: the_product_def ranked_row_def)
  have "filter (\<lambda>x. the_product x = Finite (51 / 2))
          [ranked_row ''alpha'' (5 / 2) (17 / 5) 3 (51 / 2),
           ranked_row ''epsilon'' (5 / 2) (17 / 5) 3 (51 / 2),
           ranked_row ''gamma'' (5 / 2) (17 / 5) 3 (51 / 2),
           ranked_row ''beta'' (13 / 5) (33 / 10) (29 / 10) (12441 / 500)]
        \<noteq> filter (\<lambda>x. the_product x = Finite (51 / 2))
          [ranked_row ''gamma'' (5 / 2) (17 / 5) 3 (51 / 2),
           ranked_row ''epsilon'' (5 / 2) (17 / 5) 3 (51 / 2),
           ranked_row ''alpha'' (5 / 2) (17 / 5) 3 (51 / 2),
           ranked_row ''beta'' (13 / 5) (33 / 10) (29 / 10) (12441 / 500)]"
    by (simp add: the_product_def ranked_row_def book_row_def)
  then have n: "\<not> stable_on the_product
         [ranked_row ''gamma'' (5 / 2) (17 / 5) 3 (51 / 2),
          ranked_row ''epsilon'' (5 / 2) (17 / 5) 3 (51 / 2),
          ranked_row ''alpha'' (5 / 2) (17 / 5) 3 (51 / 2),
          ranked_row ''beta'' (13 / 5) (33 / 10) (29 / 10) (12441 / 500)]
         [ranked_row ''alpha'' (5 / 2) (17 / 5) 3 (51 / 2),
          ranked_row ''epsilon'' (5 / 2) (17 / 5) 3 (51 / 2),
          ranked_row ''gamma'' (5 / 2) (17 / 5) 3 (51 / 2),
          ranked_row ''beta'' (13 / 5) (33 / 10) (29 / 10) (12441 / 500)]"
    unfolding stable_on_def by blast
  from sorts_descending_ties_reversed a_run_records a_run_ranked p n show ?thesis by blast
qed

text \<open>
  C2, amended. Aggregate mode: when no product is NaN, the output holds the records that
  passed, in non-increasing order of \<^verbatim>\<open>combined_product\<close>, and records with equal products
  are in the order in which they were appended. Per-bookmaker mode: when the sort of the
  library does what the library promises and no product is NaN, the frame holds the
  records that passed, in non-increasing order of \<^verbatim>\<open>combined_product\<close>; the order of rows
  with equal products is left open.
\<close>

theorem output_is_ranked:
  "(high_odds_sports pf fsub fmul target tol mx sport_keys [] [] = (out, Inr results) \<longrightarrow>
      NaN \<notin> r_combined_product ` set results \<longrightarrow>
      (\<exists>ranked. find_high_odds_events pf fsub fmul sport_keys target tol mx
                   = (out, Inr ranked)
         \<and> mset ranked = mset results
         \<and> sorted_wrt (\<lambda>a b. fle (r_combined_product b) (r_combined_product a)) ranked
         \<and> stable_on r_combined_product results ranked))
   \<and> (sorts_descending sort_values \<longrightarrow>
      target_sports pf fsub fmul target tol sport_keys [] [] = (out', Inr records) \<longrightarrow>
      NaN \<notin> the_product ` set records \<longrightarrow>
      (\<exists>ranked. find_events_with_target_odds sort_values pf fsub fmul sport_keys target tol
                   = (out', Inr ranked)
         \<and> mset ranked = mset records
         \<and> sorted_wrt (\<lambda>a b. fle (the_product b) (the_product a)) ranked))"
proof (intro conjI impI)
  assume h: "high_odds_sports pf fsub fmul target tol mx sport_keys [] [] = (out, Inr results)"
    and n: "NaN \<notin> r_combined_product ` set results"
  have "find_high_odds_events pf fsub fmul sport_keys target tol mx
          = (out, Inr (sort_reverse r_combined_product results))"
    using h by (simp add: find_high_odds_events_def)
  moreover have "mset (sort_reverse r_combined_product results) = mset results"
    by (rule mset_sort_reverse)
  moreover have "sorted_wrt (\<lambda>a b. fle (r_combined_product b) (r_combined_product a))
                   (sort_reverse r_combined_product results)"
    using n by (rule sorted_sort_reverse)
  moreover have "stable_on r_combined_product results (sort_reverse r_combined_product results)"
    by (rule stable_sort_reverse)
  ultimately show "\<exists>ranked. find_high_odds_events pf fsub fmul sport_keys target tol mx
                   = (out, Inr ranked)
         \<and> mset ranked = mset results
         \<and> sorted_wrt (\<lambda>a b. fle (r_combined_product b) (r_combined_product a)) ranked
         \<and> stable_on r_combined_product results ranked"
    by blast
next
  assume s: "sorts_descending sort_values"
    and t: "target_sports pf fsub fmul target tol sport_keys [] [] = (out', Inr records)"
    and n: "NaN \<notin> the_product ` set records"
  let ?ranked = "if records = [] then [] else sort_values records"
  have "find_events_with_target_odds sort_values pf fsub fmul sport_keys target tol
          = (out', Inr ?ranked)"
    using t by (simp add: find_events_with_target_odds_def)
  moreover have "mset ?ranked = mset records"
    using s by (simp add: sorts_descending_def)
  moreover have "sorted_wrt (\<lambda>a b. fle (the_product b) (the_product a)) ?ranked"
    using s n by (simp add: sorts_descending_def)
  ultimately show "\<exists>ranked. find_events_with_target_odds sort_values pf fsub fmul sport_keys
                     target tol = (out', Inr ranked)
         \<and> mset ranked = mset records
         \<and> sorted_wrt (\<lambda>a b. fle (the_product b) (the_product a)) ranked"
    by blast
qed

theorem output_is_ranked_witness:
  "high_odds_sports float_of_string sample_sub sample_mul (Finite 3) (Finite (3 / 5)) (Some 10)
       a_run [] []
     = ([Skipping_sport ''soccer_down'' ConnectionFailure],
        Inr [best_record (5 / 2) (17 / 5) 3 (51 / 2),
             best_record (13 / 5) (17 / 5) 3 (663 / 25)])
   \<and> find_high_odds_events float_of_string sample_sub sample_mul a_run (Finite 3)
       (Finite (3 / 5)) (Some 10)
     = ([Skipping_sport ''soccer_down'' ConnectionFailure],
        Inr [best_record (13 / 5) (17 / 5) 3 (663 / 25),
             best_record (5 / 2) (17 / 5) 3 (51 / 2)])
   \<and> sorted_wrt (\<lambda>a b. fle (r_combined_product b) (r_combined_product a))
       [best_record (13 / 5) (17 / 5) 3 (663 / 25), best_record (5 / 2) (17 / 5) 3 (51 / 2)]
   \<and> find_events_with_target_odds ties_reversed float_of_string sample_sub sample_mul a_run
       (Finite 3) (Finite (3 / 5))
     = ([Error_fetching ''soccer_down'' ConnectionFailure],
        Inr [ranked_row ''alpha'' (5 / 2) (17 / 5) 3 (51 / 2),
             ranked_row ''epsilon'' (5 / 2) (17 / 5) 3 (51 / 2),
             ranked_row ''gamma'' (5 / 2) (17 / 5) 3 (51 / 2),
             ranked_row ''beta'' (13 / 5) (33 / 10) (29 / 10) (12441 / 500)])
   \<and> sorted_wrt (\<lambda>a b. fle (the_product b) (the_product a))
       [ranked_row ''alpha'' (5 / 2) (17 / 5) 3 (51 / 2),
        ranked_row ''epsilon'' (5 / 2) (17 / 5) 3 (51 / 2),
        ranked_row ''gamma'' (5 / 2) (17 / 5) 3 (51 / 2),
        ranked_row ''beta'' (13 / 5) (33 / 10) (29 / 10) (12441 / 500)]"
proof -
  have "\<exists>ranked. find_high_odds_events float_of_string sample_sub sample_mul a_run (Finite 3)
                    (Finite (3 / 5)) (Some 10)
                   = ([Skipping_sport ''soccer_down'' ConnectionFailure], Inr ranked)
         \<and> mset ranked = mset [best_record (5 / 2) (17 / 5) 3 (51 / 2),
                               best_record (13 / 5) (17 / 5) 3 (663 / 25)]
         \<and> sorted_wrt (\<lambda>a b. fle (r_combined_product b) (r_combined_product a)) ranked
         \<and> stable_on r_combined_product
             [best_record (5 / 2) (17 / 5) 3 (51 / 2),
              best_record (13 / 5) (17 / 5) 3 (663 / 25)] ranked"
    by (rule output_is_ranked [THEN conjunct1, rule_format, OF a_run_results])
       (simp add: best_record_def)
  then have a: "sorted_wrt (\<lambda>a b. fle (r_combined_product b) (r_combined_product a))
       [best_record (13 / 5) (17 / 5) 3 (663 / 25), best_record (5 / 2) (17 / 5) 3 (51 / 2)]"
    unfolding a_run_best by blast
  have "\<exists>ranked. find_events_with_target_odds ties_reversed float_of_string sample_sub
                    sample_mul a_run (Finite 3) (Finite (3 / 5))
                   = ([Error_fetching ''soccer_down'' ConnectionFailure], Inr ranked)
         \<and> mset ranked = mset [ranked_row ''gamma'' (5 / 2) (17 / 5) 3 (51 / 2),
             ranked_row ''epsilon'' (5 / 2) (17 / 5) 3 (51 / 2),
             ranked_row ''alpha'' (5 / 2) (17 / 5) 3 (51 / 2),
             ranked_row ''beta'' (13 / 5) (33 / 10) (29 / 10) (12441 / 500)]
         \<and> sorted_wrt (\<lambda>a b. fle (the_product b) (the_product a)) ranked"
    by (rule output_is_ranked
          [THEN conjunct2, rule_format, OF sorts_descending_ties_reversed a_run_records])
       (simp add: the_product_def ranked_row_def)
  then have b: "sorted_wrt (\<lambda>a b. fle (the_product b) (the_product a))
       [ranked_row ''alpha'' (5 / 2) (17 / 5) 3 (51 / 2),
        ranked_row ''epsilon'' (5 / 2) (17 / 5) 3 (51 / 2),
        ranked_row ''gamma'' (5 / 2) (17 / 5) 3 (51 / 2),
        ranked_row ''beta'' (13 / 5) (33 / 10) (29 / 10) (12441 / 500)]"
    unfolding a_run_ranked by blast
  from a_run_results a_run_best a a_run_ranked b show ?thesis by blast
qed

text \<open>
  C6. A fetch answered with the status 404 returns the empty list, and the run is what
  it would be without that sport key. A fetch that fails in any other way (no answer,
  another error status, a body that is not JSON) is caught in the loop over the sport
  keys of both scripts: the run goes on with the remaining keys from the records
  collected so far, with one more printed line that names the key and the failure.
\<close>

theorem fetch_failures_are_isolated:
  "fetch_odds (Response 404 body) = Inr []
   \<and> high_odds_sports pf fsub fmul target tol mx
         (before @ (skey, Response 404 body) # rest) results out
       = high_odds_sports pf fsub fmul target tol mx (before @ rest) results out
   \<and> target_sports pf fsub fmul target tol
         (before @ (skey, Response 404 body) # rest) records out
       = target_sports pf fsub fmul target tol (before @ rest) records out
   \<and> (fetch_odds resp = Inl e \<longrightarrow>
        high_odds_sports pf fsub fmul target tol mx (before @ (skey, resp) # rest) results out
          = (case high_odds_sports pf fsub fmul target tol mx before results out of
               (out', Inl x) \<Rightarrow> (out', Inl x)
             | (out', Inr results') \<Rightarrow>
                 high_odds_sports pf fsub fmul target tol mx rest results'
                   (out' @ [Skipping_sport skey e]))
        \<and> target_sports pf fsub fmul target tol (before @ (skey, resp) # rest) records out
          = (case target_sports pf fsub fmul target tol before records out of
               (out', Inl x) \<Rightarrow> (out', Inl x)
             | (out', Inr records') \<Rightarrow>
                 target_sports pf fsub fmul target tol rest records'
                   (out' @ [Error_fetching skey e])))"
  by (simp add: high_odds_sports_append target_sports_append fetch_odds_not_found
        first_events_Nil split: prod.splits sum.splits)

theorem fetch_failures_are_isolated_witness:
  "fetch_odds No_response = Inl ConnectionFailure
   \<and> high_odds_sports float_of_string sample_sub sample_mul (Finite 3) (Finite (3 / 5)) (Some 10)
       a_run [] []
     = high_odds_sports float_of_string sample_sub sample_mul (Finite 3) (Finite (3 / 5))
         (Some 10) [(''soccer_liga'', Response 200 (Some [two_books]))]
         [best_record (5 / 2) (17 / 5) 3 (51 / 2)]
         [Skipping_sport ''soccer_down'' ConnectionFailure]
   \<and> target_sports float_of_string sample_sub sample_mul (Finite 3) (Finite (3 / 5)) a_run [] []
     = target_sports float_of_string sample_sub sample_mul (Finite 3) (Finite (3 / 5))
         [(''soccer_liga'', Response 200 (Some [two_books]))]
         [ranked_row ''gamma'' (5 / 2) (17 / 5) 3 (51 / 2),
          ranked_row ''epsilon'' (5 / 2) (17 / 5) 3 (51 / 2)]
         [Error_fetching ''soccer_down'' ConnectionFailure]"
proof -
  have f: "fetch_odds No_response = Inl ConnectionFailure"
    by (simp add: fetch_odds_def)
  note t = fetch_failures_are_isolated
             [THEN conjunct2, THEN conjunct2, THEN conjunct2, rule_format, OF f]
  have "high_odds_sports float_of_string sample_sub sample_mul (Finite 3) (Finite (3 / 5))
          (Some 10)
          ([(''soccer_epl'', Response 200 (Some [three_books])),
            (''soccer_off'', Response 404 None)]
           @ (''soccer_down'', No_response)
           # [(''soccer_liga'', Response 200 (Some [two_books]))]) [] []
        = (case high_odds_sports float_of_string sample_sub sample_mul (Finite 3)
                  (Finite (3 / 5)) (Some 10)
                  [(''soccer_epl'', Response 200 (Some [three_books])),
                   (''soccer_off'', Response 404 None)] [] [] of
             (out', Inl x) \<Rightarrow> (out', Inl x)
           | (out', Inr results') \<Rightarrow>
               high_odds_sports float_of_string sample_sub sample_mul (Finite 3)
                 (Finite (3 / 5)) (Some 10)
                 [(''soccer_liga'', Response 200 (Some [two_books]))] results'
                 (out' @ [Skipping_sport ''soccer_down'' ConnectionFailure]))"
    by (rule t [THEN conjunct1])
  then have a: "high_odds_sports float_of_string sample_sub sample_mul (Finite 3)
       (Finite (3 / 5)) (Some 10) a_run [] []
     = high_odds_sports float_of_string sample_sub sample_mul (Finite 3) (Finite (3 / 5))
         (Some 10) [(''soccer_liga'', Response 200 (Some [two_books]))]
         [best_record (5 / 2) (17 / 5) 3 (51 / 2)]
         [Skipping_sport ''soccer_down'' ConnectionFailure]"
    unfolding a_run_split [symmetric] a_run_before by simp
  have "target_sports float_of_string sample_sub sample_mul (Finite 3) (Finite (3 / 5))
          ([(''soccer_epl'', Response 200 (Some [three_books])),
            (''soccer_off'', Response 404 None)]
           @ (''soccer_down'', No_response)
           # [(''soccer_liga'', Response 200 (Some [two_books]))]) [] []
        = (case target_sports float_of_string sample_sub sample_mul (Finite 3)
                  (Finite (3 / 5))
                  [(''soccer_epl'', Response 200 (Some [three_books])),
                   (''soccer_off'', Response 404 None)] [] [] of
             (out', Inl x) \<Rightarrow> (out', Inl x)
           | (out', Inr records') \<Rightarrow>
               target_sports float_of_string sample_sub sample_mul (Finite 3)
                 (Finite (3 / 5))
                 [(''soccer_liga'', Response 200 (Some [two_books]))] records'
                 (out' @ [Error_fetching ''soccer_down'' ConnectionFailure]))"
    by (rule t [THEN conjunct2])
  then have b: "target_sports float_of_string sample_sub sample_mul (Finite 3)
       (Finite (3 / 5)) a_run [] []
     = target_sports float_of_string sample_sub sample_mul (Finite 3) (Finite (3 / 5))
         [(''soccer_liga'', Response 200 (Some [two_books]))]
         [ranked_row ''gamma'' (5 / 2) (17 / 5) 3 (51 / 2),
          ranked_row ''epsilon'' (5 / 2) (17 / 5) 3 (51 / 2)]
         [Error_fetching ''soccer_down'' ConnectionFailure]"
    unfolding a_run_split [symmetric] a_run_before by simp
  from f a b show ?thesis by blast
qed


end
